theory Spec2Isabelle
  imports Main "HOL-Library.Word" "HOL-Library.Sublist"
begin

section \<open>Data model\<close>

text \<open>
  The MCP tool surface of container-use (package \<open>mcpserver\<close>) and two functions of
  its command line (package \<open>main\<close>), embedded as HOL functions.

  A Go \<open>error\<close> is a value of the datatype \<open>error\<close>; \<open>Error\<close> gives its message
  (Go's \<open>err.Error()\<close>). \<open>fmt.Errorf("prefix: %w", err)\<close> is \<open>Wrapped ''prefix: '' err\<close>.
  \<open>External\<close> is an error made by a collaborator (repository, environment, JSON encoder,
  time parser), held by its message.
\<close>

datatype error =
    NoCurrentEnvironment
  | RequiredArgumentNotFound string
  | ArgumentNotAString string
  | EnvironmentAlreadyExists string
  | DaggerClientNotFound
  | External string
  | Wrapped string error

definition quoted :: "string \<Rightarrow> string" where
  "quoted key = CHR 0x22 # key @ [CHR 0x22]"

fun Error :: "error \<Rightarrow> string" where
  "Error NoCurrentEnvironment =
     ''no current environment set. Use environment_create or environment_open first''"
| "Error (RequiredArgumentNotFound key) = ''required argument '' @ quoted key @ '' not found''"
| "Error (ArgumentNotAString key) = ''argument '' @ quoted key @ '' is not a string''"
| "Error (EnvironmentAlreadyExists currentEnvID) =
     ''environment_id '' @ currentEnvID @
     '' already exists for this session. Tools can be used directly. You can environment_open '' @
     currentEnvID @
     '' for more information, or set allow_replace=true to destructively replace it''"
| "Error DaggerClientNotFound = ''dagger client not found in context''"
| "Error (External msg) = msg"
| "Error (Wrapped pre err) = pre @ Error err"

text \<open>
  The arguments of a tool call (\<open>request.GetArguments()\<close>): a map from argument names to
  decoded JSON values. A JSON number is held as an integer: the handlers modelled here
  only truncate it (\<open>int(port.(float64))\<close>) or compare it with zero.
\<close>

datatype arg = AString string | ABool bool | ANumber int | AArray "arg list" | ANull

type_synonym request = "string \<rightharpoonup> arg"

text \<open>
  The accessors of \<open>mcp.CallToolRequest\<close> (library mcp-go), by their contract:
  \<open>GetString\<close> gives the argument when it is present and a string, the default otherwise;
  \<open>RequireString\<close> fails when the argument is absent or not a string;
  \<open>GetBool\<close> reads a boolean, a string that \<open>strconv.ParseBool\<close> accepts, or a number
  (true when not zero), and gives the default otherwise.
\<close>

definition GetString :: "request \<Rightarrow> string \<Rightarrow> string \<Rightarrow> string" where
  "GetString request key defaultValue =
     (case request key of Some (AString str) \<Rightarrow> str | _ \<Rightarrow> defaultValue)"

definition RequireString :: "request \<Rightarrow> string \<Rightarrow> error + string" where
  "RequireString request key =
     (case request key of
        Some (AString str) \<Rightarrow> Inr str
      | Some _ \<Rightarrow> Inl (ArgumentNotAString key)
      | None \<Rightarrow> Inl (RequiredArgumentNotFound key))"

text \<open>
  The Go idiom \<open>source, _ := request.RequireString(key)\<close>: the error is dropped, and
  with it comes the empty string.
\<close>

definition RequireString_ignoring_error :: "request \<Rightarrow> string \<Rightarrow> string" where
  "RequireString_ignoring_error request key =
     (case RequireString request key of Inl _ \<Rightarrow> [] | Inr str \<Rightarrow> str)"

definition ParseBool :: "string \<Rightarrow> bool option" where
  "ParseBool str =
     (if str \<in> set [''1'', ''t'', ''T'', ''TRUE'', ''true'', ''True''] then Some True
      else if str \<in> set [''0'', ''f'', ''F'', ''FALSE'', ''false'', ''False''] then Some False
      else None)"

definition GetBool :: "request \<Rightarrow> string \<Rightarrow> bool \<Rightarrow> bool" where
  "GetBool request key defaultValue =
     (case request key of
        Some (ABool v) \<Rightarrow> v
      | Some (AString v) \<Rightarrow> (case ParseBool v of Some b \<Rightarrow> b | None \<Rightarrow> defaultValue)
      | Some (ANumber v) \<Rightarrow> v \<noteq> 0
      | _ \<Rightarrow> defaultValue)"

text \<open>The request context: the values stored under \<open>singleTenantKey\<close> and \<open>daggerClientKey\<close>.\<close>

datatype dagger_client = DaggerClient

record tool_context =
  singleTenantValue :: "bool option"
  daggerClientValue :: "dagger_client option"

text \<open>\<open>singleTenant, _ := ctx.Value(singleTenantKey{}).(bool)\<close>: false when the key is absent.\<close>

definition singleTenantMode :: "tool_context \<Rightarrow> bool" where
  "singleTenantMode ctx = (case singleTenantValue ctx of Some b \<Rightarrow> b | None \<Rightarrow> False)"

subsection \<open>Environments\<close>

record EnvironmentConfig =
  BaseImage :: string
  SetupCommands :: "string list"
  Env :: "string list"
  Workdir :: string

text \<open>Times are instants in nanoseconds; \<open>Config\<close> is a pointer, \<open>None\<close> when nil.\<close>

record State =
  Title :: string
  Config :: "EnvironmentConfig option"
  CreatedAt :: int
  UpdatedAt :: int

record EnvironmentInfo =
  ID :: string
  State :: State

datatype Service = Service string

record Environment =
  EnvironmentInfo :: EnvironmentInfo
  Services :: "Service list"

datatype Repository = Repository string

text \<open>The endpoints of a background command: for each port, the internal and external address.\<close>

type_synonym EndpointMappings = "(int \<times> string \<times> string) list"

record EnvironmentResponse =
  ID_resp :: string
  Title_resp :: string
  Config_resp :: "EnvironmentConfig option"
  RemoteRef :: string
  CheckoutCommand :: string
  LogCommand :: string
  DiffCommand :: string
  Services_resp :: "Service list"

definition environmentResponseFromEnvInfo :: "EnvironmentInfo \<Rightarrow> EnvironmentResponse" where
  "environmentResponseFromEnvInfo envInfo =
     \<lparr> ID_resp = ID envInfo,
       Title_resp = Title (State envInfo),
       Config_resp = Config (State envInfo),
       RemoteRef = ''container-use/'' @ ID envInfo,
       CheckoutCommand = ''container-use checkout '' @ ID envInfo,
       LogCommand = ''container-use log '' @ ID envInfo,
       DiffCommand = ''container-use diff '' @ ID envInfo,
       Services_resp = [] \<rparr>"

definition environmentResponseFromEnv :: "Environment \<Rightarrow> EnvironmentResponse" where
  "environmentResponseFromEnv env =
     (environmentResponseFromEnvInfo (EnvironmentInfo env)) \<lparr> Services_resp := Services env \<rparr>"

record CallToolResult =
  Text :: string
  IsError :: bool

definition NewToolResultText :: "string \<Rightarrow> CallToolResult" where
  "NewToolResultText text = \<lparr> Text = text, IsError = False \<rparr>"

definition NewToolResultError :: "string \<Rightarrow> CallToolResult" where
  "NewToolResultError text = \<lparr> Text = text, IsError = True \<rparr>"

definition NewToolResultErrorFromErr :: "string \<Rightarrow> error \<Rightarrow> CallToolResult" where
  "NewToolResultErrorFromErr text err = \<lparr> Text = text @ '': '' @ Error err, IsError = True \<rparr>"

section \<open>The process and its collaborators\<close>

text \<open>
  Calls that leave the package: to the repository, to an environment, to the clock.
  Each one is written to the log \<open>calls\<close> of the process when it is made.
\<close>

datatype call =
    Call_Open string
  | Call_Get Repository string
  | Call_Create Repository string string string
  | Call_IsDirty Repository
  | Call_List Repository
  | Call_Delete Repository string
  | Call_Update Repository string string
  | Call_UpdateFile Repository string string string
  | Call_FileWrite string string string string
  | Call_FileEdit string string string string string string
  | Call_FileDelete string string string
  | Call_Run string string string bool
  | Call_RunBackground string string string "int list" bool
  | Call_ParseNow string
  | Call_Now

datatype printed_line =
    NoEnvironmentsFound
  | NoEnvironmentsOlder int
  | WouldPrune nat int
  | WouldPruneItem string
  | Pruning nat int
  | FailedToDelete string error
  | DeletedSuccessfully string
  | SuccessfullyDeleted nat

text \<open>
  The state of one process: the two package variables of single-tenant mode, the log of
  calls, what was printed, and the world outside (repositories, worktrees, containers,
  the clock), of which the code knows nothing but the answers of its collaborators.
\<close>

record 'w process =
  currentEnvironmentID :: string
  currentEnvironmentSource :: string
  calls :: "call list"
  printed :: "printed_line list"
  world :: 'w

text \<open>
  The collaborators, as parameters: each takes the world and gives its answer and the
  world after. \<open>json_Marshal\<close> is \<open>json.Marshal\<close> on an \<open>EnvironmentResponse\<close>.
\<close>

record 'w backend =
  repository_Open :: "string \<Rightarrow> 'w \<Rightarrow> (error + Repository) \<times> 'w"
  repo_Get :: "Repository \<Rightarrow> string \<Rightarrow> 'w \<Rightarrow> (error + Environment) \<times> 'w"
  repo_Create :: "Repository \<Rightarrow> string \<Rightarrow> string \<Rightarrow> string \<Rightarrow> 'w \<Rightarrow> (error + Environment) \<times> 'w"
  repo_IsDirty :: "Repository \<Rightarrow> 'w \<Rightarrow> (error + bool \<times> string) \<times> 'w"
  repo_List :: "Repository \<Rightarrow> 'w \<Rightarrow> (error + EnvironmentInfo list) \<times> 'w"
  repo_Delete :: "Repository \<Rightarrow> string \<Rightarrow> 'w \<Rightarrow> error option \<times> 'w"
  repo_Update :: "Repository \<Rightarrow> Environment \<Rightarrow> string \<Rightarrow> 'w \<Rightarrow> error option \<times> 'w"
  repo_UpdateFile :: "Repository \<Rightarrow> Environment \<Rightarrow> string \<Rightarrow> string \<Rightarrow> 'w \<Rightarrow> error option \<times> 'w"
  env_FileWrite :: "Environment \<Rightarrow> string \<Rightarrow> string \<Rightarrow> string \<Rightarrow> 'w \<Rightarrow> error option \<times> 'w"
  env_FileEdit ::
    "Environment \<Rightarrow> string \<Rightarrow> string \<Rightarrow> string \<Rightarrow> string \<Rightarrow> string \<Rightarrow> 'w \<Rightarrow> error option \<times> 'w"
  env_FileDelete :: "Environment \<Rightarrow> string \<Rightarrow> string \<Rightarrow> 'w \<Rightarrow> error option \<times> 'w"
  env_Run :: "Environment \<Rightarrow> string \<Rightarrow> string \<Rightarrow> bool \<Rightarrow> 'w \<Rightarrow> (string \<times> error option) \<times> 'w"
  env_RunBackground ::
    "Environment \<Rightarrow> string \<Rightarrow> string \<Rightarrow> int list \<Rightarrow> bool \<Rightarrow> 'w
       \<Rightarrow> (EndpointMappings \<times> error option) \<times> 'w"
  json_Marshal :: "EnvironmentResponse \<Rightarrow> error + string"
  json_Marshal_endpoints :: "EndpointMappings \<Rightarrow> error + string"
  tparse_ParseNow :: "string \<Rightarrow> 'w \<Rightarrow> (error + int) \<times> 'w"
  time_Now :: "'w \<Rightarrow> int \<times> 'w"

definition invoke :: "call \<Rightarrow> ('w \<Rightarrow> 'a \<times> 'w) \<Rightarrow> 'w process \<Rightarrow> 'a \<times> 'w process" where
  "invoke c f s =
     (case f (world s) of (r, w') \<Rightarrow> (r, s \<lparr> calls := calls s @ [c], world := w' \<rparr>))"

section \<open>Session State (singletenant.go)\<close>

definition getCurrentEnvironmentID :: "'w process \<Rightarrow> error + string" where
  "getCurrentEnvironmentID s =
     (if currentEnvironmentID s = [] then Inl NoCurrentEnvironment
      else Inr (currentEnvironmentID s))"

definition getCurrentEnvironmentSource :: "'w process \<Rightarrow> error + string" where
  "getCurrentEnvironmentSource s =
     (if currentEnvironmentSource s = [] then Inl NoCurrentEnvironment
      else Inr (currentEnvironmentSource s))"

definition setCurrentEnvironmentID :: "string \<Rightarrow> 'w process \<Rightarrow> 'w process" where
  "setCurrentEnvironmentID envID s = s \<lparr> currentEnvironmentID := envID \<rparr>"

definition setCurrentEnvironmentSource :: "string \<Rightarrow> 'w process \<Rightarrow> 'w process" where
  "setCurrentEnvironmentSource envSource s = s \<lparr> currentEnvironmentSource := envSource \<rparr>"

definition setCurrentEnvironment :: "string \<Rightarrow> string \<Rightarrow> 'w process \<Rightarrow> 'w process" where
  "setCurrentEnvironment envID envSource s =
     s \<lparr> currentEnvironmentID := envID, currentEnvironmentSource := envSource \<rparr>"

text \<open>
  Every accessor holds \<open>currentEnvMutex\<close> for its whole body, so an interleaving of
  accessor calls from any number of goroutines is a sequence of whole calls. A getter
  answers and leaves the state as it is.
\<close>

datatype session_call =
    SetID string
  | SetSource string
  | SetBoth string string
  | GetID
  | GetSource

fun session_step :: "session_call \<Rightarrow> 'w process \<Rightarrow> 'w process" where
  "session_step (SetID envID) s = setCurrentEnvironmentID envID s"
| "session_step (SetSource envSource) s = setCurrentEnvironmentSource envSource s"
| "session_step (SetBoth envID envSource) s = setCurrentEnvironment envID envSource s"
| "session_step GetID s = s"
| "session_step GetSource s = s"

fun session_run :: "session_call list \<Rightarrow> 'w process \<Rightarrow> 'w process" where
  "session_run [] s = s"
| "session_run (c # cs) s = session_run cs (session_step c s)"

text \<open>The process as it starts: Go's zero values.\<close>

definition process_start :: "'w \<Rightarrow> 'w process" where
  "process_start w =
     \<lparr> currentEnvironmentID = [], currentEnvironmentSource = [], calls = [], printed = [],
       world = w \<rparr>"

text \<open>
  The words of the specification: the last ID (source) that a setter stored in a history
  of calls, \<open>None\<close> when no setter stored one.
\<close>

fun stores_id :: "session_call \<Rightarrow> string option" where
  "stores_id (SetID envID) = Some envID"
| "stores_id (SetBoth envID envSource) = Some envID"
| "stores_id _ = None"

fun stores_source :: "session_call \<Rightarrow> string option" where
  "stores_source (SetSource envSource) = Some envSource"
| "stores_source (SetBoth envID envSource) = Some envSource"
| "stores_source _ = None"

fun last_stored :: "(session_call \<Rightarrow> string option) \<Rightarrow> session_call list \<Rightarrow> string option" where
  "last_stored f [] = None"
| "last_stored f (c # cs) =
     (case last_stored f cs of Some v \<Rightarrow> Some v | None \<Rightarrow> f c)"

definition spec_getter :: "string option \<Rightarrow> error + string" where
  "spec_getter v =
     (case v of None \<Rightarrow> Inl NoCurrentEnvironment
      | Some x \<Rightarrow> if x = [] then Inl NoCurrentEnvironment else Inr x)"

section \<open>Resolving the repository and the environment of a call\<close>

definition openRepository ::
  "'w backend \<Rightarrow> tool_context \<Rightarrow> request \<Rightarrow> 'w process \<Rightarrow> (error + Repository) \<times> 'w process" where
  "openRepository B ctx request s =
     (case (if singleTenantMode ctx
            then (let source = GetString request ''environment_source'' []
                  in if source = [] then getCurrentEnvironmentSource s else Inr source)
            else RequireString request ''environment_source'') of
        Inl err \<Rightarrow> (Inl err, s)
      | Inr source \<Rightarrow>
          (case invoke (Call_Open source) (repository_Open B source) s of
             (Inl err, s1) \<Rightarrow> (Inl (Wrapped ''unable to open repository: '' err), s1)
           | (Inr repo, s1) \<Rightarrow> (Inr repo, s1)))"

definition openEnvironment ::
  "'w backend \<Rightarrow> tool_context \<Rightarrow> request \<Rightarrow> 'w process
     \<Rightarrow> (error + Repository \<times> Environment) \<times> 'w process" where
  "openEnvironment B ctx request s =
     (case openRepository B ctx request s of
        (Inl err, s1) \<Rightarrow> (Inl err, s1)
      | (Inr repo, s1) \<Rightarrow>
          (case (if singleTenantMode ctx
                 then (let envID = GetString request ''environment_id'' []
                       in if envID = [] then getCurrentEnvironmentID s1 else Inr envID)
                 else RequireString request ''environment_id'') of
             Inl err \<Rightarrow> (Inl err, s1)
           | Inr envID \<Rightarrow>
               (case daggerClientValue ctx of
                  None \<Rightarrow> (Inl DaggerClientNotFound, s1)
                | Some dag \<Rightarrow>
                    (case invoke (Call_Get repo envID) (repo_Get B repo envID) s1 of
                       (Inl err, s2) \<Rightarrow> (Inl (Wrapped ''unable to get environment: '' err), s2)
                     | (Inr env, s2) \<Rightarrow> (Inr (repo, env), s2)))))"

section \<open>Tool handlers\<close>

text \<open>
  A handler returns \<open>(result, nil)\<close> or \<open>(nil, err)\<close>: a value of \<open>error + CallToolResult\<close>.
  \<open>wrapTool\<close> is written for any handler, so it works on Go's pair of a result and an
  error, each of which may be nil.
\<close>

type_synonym go_return = "CallToolResult option \<times> error option"

definition wrapTool ::
  "(tool_context \<Rightarrow> request \<Rightarrow> 's \<Rightarrow> go_return \<times> 's) \<Rightarrow> tool_context \<Rightarrow> request \<Rightarrow> 's \<Rightarrow> go_return \<times> 's" where
  "wrapTool handler ctx request s =
     (case handler ctx request s of
        ((response, Some err), s1) \<Rightarrow> ((Some (NewToolResultError (Error err)), None), s1)
      | ((response, None), s1) \<Rightarrow> ((response, None), s1))"

definition wrapToolWithClient ::
  "(tool_context \<Rightarrow> request \<Rightarrow> 's \<Rightarrow> go_return \<times> 's) \<Rightarrow> dagger_client \<Rightarrow> bool
     \<Rightarrow> tool_context \<Rightarrow> request \<Rightarrow> 's \<Rightarrow> go_return \<times> 's" where
  "wrapToolWithClient handler dag singleTenant ctx request s =
     handler (ctx \<lparr> daggerClientValue := Some dag, singleTenantValue := Some singleTenant \<rparr>)
       request s"

definition go_return :: "error + CallToolResult \<Rightarrow> go_return" where
  "go_return r = (case r of Inl err \<Rightarrow> (None, Some err) | Inr response \<Rightarrow> (Some response, None))"

text \<open>A handler of this package, seen as a Go function that returns a pair.\<close>

definition go_handler ::
  "(tool_context \<Rightarrow> request \<Rightarrow> 's \<Rightarrow> (error + CallToolResult) \<times> 's)
     \<Rightarrow> tool_context \<Rightarrow> request \<Rightarrow> 's \<Rightarrow> go_return \<times> 's" where
  "go_handler handler ctx request s =
     (case handler ctx request s of (r, s1) \<Rightarrow> (go_return r, s1))"

definition marshalEnvironment :: "'w backend \<Rightarrow> Environment \<Rightarrow> error + string" where
  "marshalEnvironment B env =
     (case json_Marshal B (environmentResponseFromEnv env) of
        Inl err \<Rightarrow> Inl (Wrapped ''failed to marshal response: '' err)
      | Inr out \<Rightarrow> Inr out)"

definition EnvironmentToCallResult :: "'w backend \<Rightarrow> Environment \<Rightarrow> error + CallToolResult" where
  "EnvironmentToCallResult B env =
     (case marshalEnvironment B env of
        Inl err \<Rightarrow> Inl err
      | Inr out \<Rightarrow> Inr (NewToolResultText out))"

definition env_ID :: "Environment \<Rightarrow> string" where
  "env_ID env = ID (EnvironmentInfo env)"

subsection \<open>Tool definitions (the arguments of a schema)\<close>

text \<open>
  Of a tool's definition, the arguments it declares: the name, and whether
  \<open>mcp.Required()\<close> marks it. \<open>newEnvironmentTool\<close> takes \<open>useCurrentEnvironment\<close> of its
  options and the other arguments.
\<close>

record tool_argument =
  arg_name :: string
  arg_required :: bool

definition explanationArgument :: tool_argument where
  "explanationArgument = \<lparr> arg_name = ''explanation'', arg_required = False \<rparr>"

definition environmentSourceArgument :: tool_argument where
  "environmentSourceArgument = \<lparr> arg_name = ''environment_source'', arg_required = True \<rparr>"

definition environmentIDArgument :: tool_argument where
  "environmentIDArgument = \<lparr> arg_name = ''environment_id'', arg_required = True \<rparr>"

definition newEnvironmentTool :: "bool \<Rightarrow> tool_argument list \<Rightarrow> tool_argument list" where
  "newEnvironmentTool useCurrentEnvironment mcpToolOptions =
     [explanationArgument]
     @ (if \<not> useCurrentEnvironment then [environmentSourceArgument, environmentIDArgument]
        else [])
     @ mcpToolOptions"

subsection \<open>environment\_open\<close>

definition createEnvironmentOpenTool_Definition :: "tool_argument list" where
  "createEnvironmentOpenTool_Definition = newEnvironmentTool False []"

definition createEnvironmentOpenTool_Handler ::
  "'w backend \<Rightarrow> tool_context \<Rightarrow> request \<Rightarrow> 'w process \<Rightarrow> (error + CallToolResult) \<times> 'w process" where
  "createEnvironmentOpenTool_Handler B ctx request s =
     (case openEnvironment B ctx request s of
        (Inl err, s1) \<Rightarrow> (Inl err, s1)
      | (Inr (repo, env), s1) \<Rightarrow>
          (let s2 = (if singleTenantMode ctx
                     then setCurrentEnvironment (env_ID env)
                            (RequireString_ignoring_error request ''environment_source'') s1
                     else s1)
           in (EnvironmentToCallResult B env, s2)))"

subsection \<open>environment\_create\<close>

definition newline :: string where
  "newline = [CHR 0x0A]"

text \<open>The format string of the warning, cut at its three verbs \<open>%s\<close>.\<close>

definition dirty_warning_head :: "string \<Rightarrow> string" where
  "dirty_warning_head source =
     newline @ newline @
     ''CRITICAL: You MUST inform the user that the repository '' @ source @
     '' has uncommitted changes that are NOT included in this environment. The environment was created from the last committed state only.'' @
     newline @ newline @
     ''Uncommitted changes detected:'' @ newline"

definition dirty_warning_tail :: string where
  "dirty_warning_tail =
     newline @ newline @
     ''You MUST tell the user: To include these changes in the environment, they need to commit them first using git commands outside the environment.''"

definition dirty_warning :: "string \<Rightarrow> string \<Rightarrow> string \<Rightarrow> string" where
  "dirty_warning out source status =
     out @ dirty_warning_head source @ status @ dirty_warning_tail"

definition createEnvironmentCreateTool_Handler ::
  "'w backend \<Rightarrow> tool_context \<Rightarrow> request \<Rightarrow> 'w process \<Rightarrow> (error + CallToolResult) \<times> 'w process" where
  "createEnvironmentCreateTool_Handler B ctx request s =
     (case openRepository B ctx request s of
        (Inl err, s1) \<Rightarrow> (Inl err, s1)
      | (Inr repo, s1) \<Rightarrow>
     (case RequireString request ''title'' of
        Inl err \<Rightarrow> (Inl err, s1)
      | Inr title \<Rightarrow>
     (case (if singleTenantMode ctx \<and> \<not> GetBool request ''allow_replace'' False
            then (case getCurrentEnvironmentID s1 of
                    Inr currentEnvID \<Rightarrow> Some (EnvironmentAlreadyExists currentEnvID)
                  | Inl err \<Rightarrow> None)
            else None) of
        Some err \<Rightarrow> (Inl err, s1)
      | None \<Rightarrow>
     (case daggerClientValue ctx of
        None \<Rightarrow> (Inl DaggerClientNotFound, s1)
      | Some dag \<Rightarrow>
     (let gitRef = GetString request ''from_git_ref'' ''HEAD'';
          explanation = GetString request ''explanation'' []
      in case invoke (Call_Create repo title explanation gitRef)
                (repo_Create B repo title explanation gitRef) s1 of
        (Inl err, s2) \<Rightarrow> (Inl (Wrapped ''failed to create environment: '' err), s2)
      | (Inr env, s2) \<Rightarrow>
     (let s3 = (if singleTenantMode ctx
                then setCurrentEnvironment (env_ID env)
                       (RequireString_ignoring_error request ''environment_source'') s2
                else s2)
      in case marshalEnvironment B env of
        Inl err \<Rightarrow> (Inl (Wrapped ''failed to marshal environment: '' err), s3)
      | Inr out \<Rightarrow>
     (case invoke (Call_IsDirty repo) (repo_IsDirty B repo) s3 of
        (Inl err, s4) \<Rightarrow> (Inl (Wrapped ''unable to check if environment is dirty: '' err), s4)
      | (Inr (dirty, status), s4) \<Rightarrow>
          if \<not> dirty then (Inr (NewToolResultText out), s4)
          else (Inr (NewToolResultText
                       (dirty_warning out (GetString request ''environment_source'' []) status)),
                s4))))))))"

subsection \<open>environment\_file\_write, environment\_file\_edit, environment\_file\_delete\<close>

definition committed_text :: "string \<Rightarrow> string \<Rightarrow> Environment \<Rightarrow> string" where
  "committed_text targetFile verb env =
     ''file '' @ targetFile @ '' '' @ verb @ '' successfully and committed to container-use/'' @
     env_ID env @ '' remote ref''"

definition createEnvironmentFileWriteTool_Handler ::
  "'w backend \<Rightarrow> tool_context \<Rightarrow> request \<Rightarrow> 'w process \<Rightarrow> (error + CallToolResult) \<times> 'w process" where
  "createEnvironmentFileWriteTool_Handler B ctx request s =
     (case openEnvironment B ctx request s of
        (Inl err, s1) \<Rightarrow> (Inl err, s1)
      | (Inr (repo, env), s1) \<Rightarrow>
     (case RequireString request ''target_file'' of
        Inl err \<Rightarrow> (Inl err, s1)
      | Inr targetFile \<Rightarrow>
     (case RequireString request ''contents'' of
        Inl err \<Rightarrow> (Inl err, s1)
      | Inr contents \<Rightarrow>
     (let explanation = GetString request ''explanation'' []
      in case invoke (Call_FileWrite (env_ID env) explanation targetFile contents)
                (env_FileWrite B env explanation targetFile contents) s1 of
        (Some err, s2) \<Rightarrow> (Inl (Wrapped ''failed to write file: '' err), s2)
      | (None, s2) \<Rightarrow>
     (case invoke (Call_UpdateFile repo (env_ID env) targetFile explanation)
             (repo_UpdateFile B repo env targetFile explanation) s2 of
        (Some err, s3) \<Rightarrow> (Inl (Wrapped ''unable to update the environment: '' err), s3)
      | (None, s3) \<Rightarrow>
          (Inr (NewToolResultText (committed_text targetFile ''written'' env)), s3))))))"

definition createEnvironmentFileEditTool_Handler ::
  "'w backend \<Rightarrow> tool_context \<Rightarrow> request \<Rightarrow> 'w process \<Rightarrow> (error + CallToolResult) \<times> 'w process" where
  "createEnvironmentFileEditTool_Handler B ctx request s =
     (case openEnvironment B ctx request s of
        (Inl err, s1) \<Rightarrow>
          (Inr (NewToolResultErrorFromErr ''unable to open the environment'' err), s1)
      | (Inr (repo, env), s1) \<Rightarrow>
     (case RequireString request ''target_file'' of
        Inl err \<Rightarrow> (Inl err, s1)
      | Inr targetFile \<Rightarrow>
     (case RequireString request ''search_text'' of
        Inl err \<Rightarrow> (Inl err, s1)
      | Inr search \<Rightarrow>
     (case RequireString request ''replace_text'' of
        Inl err \<Rightarrow> (Inl err, s1)
      | Inr replace \<Rightarrow>
     (let explanation = GetString request ''explanation'' [];
          whichMatch = GetString request ''which_match'' []
      in case invoke (Call_FileEdit (env_ID env) explanation targetFile search replace whichMatch)
                (env_FileEdit B env explanation targetFile search replace whichMatch) s1 of
        (Some err, s2) \<Rightarrow> (Inr (NewToolResultErrorFromErr ''failed to write file'' err), s2)
      | (None, s2) \<Rightarrow>
     (case invoke (Call_UpdateFile repo (env_ID env) targetFile explanation)
             (repo_UpdateFile B repo env targetFile explanation) s2 of
        (Some err, s3) \<Rightarrow>
          (Inr (NewToolResultErrorFromErr ''unable to update the environment'' err), s3)
      | (None, s3) \<Rightarrow>
          (Inr (NewToolResultText (committed_text targetFile ''edited'' env)), s3)))))))"

definition createEnvironmentFileDeleteTool_Handler ::
  "'w backend \<Rightarrow> tool_context \<Rightarrow> request \<Rightarrow> 'w process \<Rightarrow> (error + CallToolResult) \<times> 'w process" where
  "createEnvironmentFileDeleteTool_Handler B ctx request s =
     (case openEnvironment B ctx request s of
        (Inl err, s1) \<Rightarrow> (Inl err, s1)
      | (Inr (repo, env), s1) \<Rightarrow>
     (case RequireString request ''target_file'' of
        Inl err \<Rightarrow> (Inl err, s1)
      | Inr targetFile \<Rightarrow>
     (let explanation = GetString request ''explanation'' []
      in case invoke (Call_FileDelete (env_ID env) explanation targetFile)
                (env_FileDelete B env explanation targetFile) s1 of
        (Some err, s2) \<Rightarrow> (Inl (Wrapped ''failed to delete file: '' err), s2)
      | (None, s2) \<Rightarrow>
     (case invoke (Call_Update repo (env_ID env) explanation)
             (repo_Update B repo env explanation) s2 of
        (Some err, s3) \<Rightarrow> (Inl (Wrapped ''failed to update env: '' err), s3)
      | (None, s3) \<Rightarrow>
          (Inr (NewToolResultText (committed_text targetFile ''deleted'' env)), s3)))))"

subsection \<open>environment\_run\_cmd\<close>

text \<open>
  \<open>int(port.(float64))\<close> panics on an element of \<open>ports\<close> that is not a number, and
  so does \<open>env.State.Config.Workdir\<close> on a nil \<open>Config\<close>. A panic is not a return: the
  handler's outcome is \<open>None\<close> then.
\<close>

fun ports_of_list :: "arg list \<Rightarrow> int list option" where
  "ports_of_list [] = Some []"
| "ports_of_list (ANumber port # portList) =
     (case ports_of_list portList of None \<Rightarrow> None | Some ports \<Rightarrow> Some (port # ports))"
| "ports_of_list (_ # portList) = None"

definition ports_of_request :: "request \<Rightarrow> int list option" where
  "ports_of_request request =
     (case request ''ports'' of
        Some (AArray portList) \<Rightarrow> ports_of_list portList
      | _ \<Rightarrow> Some [])"

definition updateRepo ::
  "'w backend \<Rightarrow> request \<Rightarrow> Repository \<Rightarrow> Environment \<Rightarrow> 'w process \<Rightarrow> error option \<times> 'w process" where
  "updateRepo B request repo env s =
     (let explanation = GetString request ''explanation'' []
      in case invoke (Call_Update repo (env_ID env) explanation)
                (repo_Update B repo env explanation) s of
        (Some err, s1) \<Rightarrow> (Some (Wrapped ''failed to update repository: '' err), s1)
      | (None, s1) \<Rightarrow> (None, s1))"

definition background_text :: "string \<Rightarrow> string \<Rightarrow> string \<Rightarrow> string" where
  "background_text out workdir envID =
     ''Command started in the background in NEW container. Endpoints are '' @ out @
     newline @ newline @
     ''To access from the user's machine: use host_external. To access from other commands in this environment: use environment_internal.'' @
     newline @ newline @
     ''Any changes to the container workdir ('' @ workdir @
     '') WILL NOT be committed to container-use/'' @ envID @
     newline @ newline @
     ''Background commands are unaffected by filesystem and any other kind of changes. You need to start a new command for changes to take effect.''"

definition foreground_text :: "string \<Rightarrow> string \<Rightarrow> string \<Rightarrow> string" where
  "foreground_text stdout workdir envID =
     stdout @ newline @ newline @
     ''Any changes to the container workdir ('' @ workdir @
     '') have been committed and pushed to container-use/'' @ envID @ '' remote ref''"

definition createEnvironmentRunCmdTool_Handler ::
  "'w backend \<Rightarrow> tool_context \<Rightarrow> request \<Rightarrow> 'w process
     \<Rightarrow> (error + CallToolResult) option \<times> 'w process" where
  "createEnvironmentRunCmdTool_Handler B ctx request s =
     (case openEnvironment B ctx request s of
        (Inl err, s1) \<Rightarrow> (Some (Inl err), s1)
      | (Inr (repo, env), s1) \<Rightarrow>
     (let command = GetString request ''command'' [];
          shell = GetString request ''shell'' ''sh'';
          background = GetBool request ''background'' False;
          useEntrypoint = GetBool request ''use_entrypoint'' False
      in if background
         then
           (case ports_of_request request of
              None \<Rightarrow> (None, s1)
            | Some ports \<Rightarrow>
           (case invoke (Call_RunBackground (env_ID env) command shell ports useEntrypoint)
                   (env_RunBackground B env command shell ports useEntrypoint) s1 of
              ((endpoints, runErr), s2) \<Rightarrow>
           (case updateRepo B request repo env s2 of
              (Some err, s3) \<Rightarrow> (Some (Inl err), s3)
            | (None, s3) \<Rightarrow>
           (case runErr of
              Some err \<Rightarrow> (Some (Inl (Wrapped ''failed to run command: '' err)), s3)
            | None \<Rightarrow>
           (case json_Marshal_endpoints B endpoints of
              Inl err \<Rightarrow> (Some (Inl err), s3)
            | Inr out \<Rightarrow>
           (case Config (State (EnvironmentInfo env)) of
              None \<Rightarrow> (None, s3)
            | Some config \<Rightarrow>
                (Some (Inr (NewToolResultText
                              (background_text out (Workdir config) (env_ID env)))), s3)))))))
         else
           (case invoke (Call_Run (env_ID env) command shell useEntrypoint)
                   (env_Run B env command shell useEntrypoint) s1 of
              ((stdout, runErr), s2) \<Rightarrow>
           (case updateRepo B request repo env s2 of
              (Some err, s3) \<Rightarrow> (Some (Inl err), s3)
            | (None, s3) \<Rightarrow>
           (case runErr of
              Some err \<Rightarrow> (Some (Inl (Wrapped ''failed to run command: '' err)), s3)
            | None \<Rightarrow>
           (case Config (State (EnvironmentInfo env)) of
              None \<Rightarrow> (None, s3)
            | Some config \<Rightarrow>
                (Some (Inr (NewToolResultText
                              (foreground_text stdout (Workdir config) (env_ID env)))), s3)))))))"

section \<open>Command line (package main)\<close>

text \<open>Go's \<open>int\<close> on a 64-bit platform: a 64-bit word read as two's complement.\<close>

definition calculateMaxTitleLength :: "64 word \<Rightarrow> 64 word" where
  "calculateMaxTitleLength terminalWidth =
     (let avgEnvIDLength = 12; tabSeparator = 1; descSuffix = 11; avgTimeLength = 10;
          closeParen = 1; padding = 5;
          usedSpace = avgEnvIDLength + tabSeparator + descSuffix + avgTimeLength
                      + closeParen + padding;
          maxTitleLength = terminalWidth - usedSpace
      in if sint maxTitleLength < 10 then 10
         else if 100 < sint maxTitleLength then 100
         else maxTitleLength)"

subsection \<open>The prune command\<close>

text \<open>
  A \<open>time.Time\<close> is an instant in nanoseconds, a \<open>time.Duration\<close> a 64-bit count of
  nanoseconds: \<open>Sub\<close> (and \<open>time.Since\<close>) saturates at the least and the greatest
  duration, and negation wraps around at the least one.
\<close>

definition Hour :: int where
  "Hour = 3600000000000"

definition minDuration :: int where
  "minDuration = - (2 ^ 63)"

definition maxDuration :: int where
  "maxDuration = 2 ^ 63 - 1"

definition time_Sub :: "int \<Rightarrow> int \<Rightarrow> int" where
  "time_Sub t u =
     (let d = t - u
      in if d < minDuration then minDuration else if maxDuration < d then maxDuration else d)"

definition negate_Duration :: "int \<Rightarrow> int" where
  "negate_Duration d = (if d = minDuration then minDuration else - d)"

definition time_Add :: "int \<Rightarrow> int \<Rightarrow> int" where
  "time_Add t d = t + d"

definition print_line :: "printed_line \<Rightarrow> 'w process \<Rightarrow> 'w process" where
  "print_line l s = s \<lparr> printed := printed s @ [l] \<rparr>"

fun print_lines :: "printed_line list \<Rightarrow> 'w process \<Rightarrow> 'w process" where
  "print_lines [] s = s"
| "print_lines (l # ls) s = print_lines ls (print_line l s)"

text \<open>The loop \<open>for _, envID := range envsToPrune\<close> that deletes, with its counter.\<close>

fun delete_loop ::
  "'w backend \<Rightarrow> Repository \<Rightarrow> string list \<Rightarrow> nat \<Rightarrow> 'w process \<Rightarrow> nat \<times> 'w process" where
  "delete_loop B repo [] deletedCount s = (deletedCount, s)"
| "delete_loop B repo (envID # envIDs) deletedCount s =
     (case invoke (Call_Delete repo envID) (repo_Delete B repo envID) s of
        (Some err, s1) \<Rightarrow>
          delete_loop B repo envIDs deletedCount (print_line (FailedToDelete envID err) s1)
      | (None, s1) \<Rightarrow>
          delete_loop B repo envIDs (Suc deletedCount)
            (print_line (DeletedSuccessfully envID) s1))"

text \<open>The loop that collects the IDs of the environments last updated before the cutoff.\<close>

definition envsToPrune_of :: "EnvironmentInfo list \<Rightarrow> int \<Rightarrow> string list" where
  "envsToPrune_of envs cutoff = map ID (filter (\<lambda>env. UpdatedAt (State env) < cutoff) envs)"

text \<open>
  The block of \<open>pruneCmd.RunE\<close> that sets \<open>duration\<close>: a week when \<open>--before\<close> is
  empty, the time since \<open>now-before\<close> otherwise.
\<close>

definition prune_duration ::
  "'w backend \<Rightarrow> string \<Rightarrow> 'w process \<Rightarrow> (error + int) \<times> 'w process" where
  "prune_duration B before s1 =
     (if before = [] then (Inr (7 * 24 * Hour), s1)
      else (case invoke (Call_ParseNow (''now-'' @ before))
                   (tparse_ParseNow B (''now-'' @ before)) s1 of
              (Inl err, s2) \<Rightarrow> (Inl (Wrapped ''invalid --before format: '' err), s2)
            | (Inr targetTime, s2) \<Rightarrow>
                (case invoke Call_Now (time_Now B) s2 of
                   (now, s3) \<Rightarrow> (Inr (time_Sub now targetTime), s3))))"

text \<open>\<open>pruneCmd.RunE\<close>, with the values of the flags \<open>--before\<close> and \<open>--dry-run\<close>.\<close>

definition pruneCmd_RunE ::
  "'w backend \<Rightarrow> string \<Rightarrow> bool \<Rightarrow> 'w process \<Rightarrow> error option \<times> 'w process" where
  "pruneCmd_RunE B before dryRun s =
     (case invoke (Call_Open ''.'') (repository_Open B ''.'') s of
        (Inl err, s1) \<Rightarrow> (Some (Wrapped ''failed to open repository: '' err), s1)
      | (Inr repo, s1) \<Rightarrow>
     (case prune_duration B before s1 of
        (Inl err, s3) \<Rightarrow> (Some err, s3)
      | (Inr duration, s3) \<Rightarrow>
     (case invoke (Call_List repo) (repo_List B repo) s3 of
        (Inl err, s4) \<Rightarrow> (Some (Wrapped ''failed to list environments: '' err), s4)
      | (Inr envs, s4) \<Rightarrow>
          if envs = [] then (None, print_line NoEnvironmentsFound s4)
          else
     (case invoke Call_Now (time_Now B) s4 of
        (now, s5) \<Rightarrow>
     (let cutoff = time_Add now (negate_Duration duration);
          envsToPrune = envsToPrune_of envs cutoff
      in if envsToPrune = [] then (None, print_line (NoEnvironmentsOlder duration) s5)
         else if dryRun
         then (None, print_lines (map WouldPruneItem envsToPrune)
                       (print_line (WouldPrune (length envsToPrune) duration) s5))
         else
     (case delete_loop B repo envsToPrune 0
             (print_line (Pruning (length envsToPrune) duration) s5) of
        (deletedCount, s6) \<Rightarrow> (None, print_line (SuccessfullyDeleted deletedCount) s6)))))))"

section \<open>A stub of the collaborators, for concrete runs\<close>

text \<open>
  A stub in which every collaborator succeeds; the world is the reading of the clock.
  Concrete runs change one collaborator of it at a time.
\<close>

definition stub_env :: "string \<Rightarrow> Environment" where
  "stub_env envID =
     \<lparr> EnvironmentInfo =
         \<lparr> ID = envID,
           State = \<lparr> Title = ''stub'',
                     Config = Some \<lparr> BaseImage = ''ubuntu'', SetupCommands = [], Env = [],
                                     Workdir = ''/workdir'' \<rparr>,
                     CreatedAt = 0, UpdatedAt = 0 \<rparr> \<rparr>,
       Services = [] \<rparr>"

definition stub_info :: "string \<Rightarrow> int \<Rightarrow> EnvironmentInfo" where
  "stub_info envID updatedAt =
     \<lparr> ID = envID,
       State = \<lparr> Title = ''stub'', Config = None, CreatedAt = 0, UpdatedAt = updatedAt \<rparr> \<rparr>"

definition stub :: "int backend" where
  "stub =
     \<lparr> repository_Open = (\<lambda>source w. (Inr (Repository source), w)),
       repo_Get = (\<lambda>repo envID w. (Inr (stub_env envID), w)),
       repo_Create = (\<lambda>repo title explanation gitRef w. (Inr (stub_env ''new-env''), w)),
       repo_IsDirty = (\<lambda>repo w. (Inr (False, []), w)),
       repo_List = (\<lambda>repo w. (Inr [stub_info ''old-env'' 0, stub_info ''fresh-env'' w], w)),
       repo_Delete = (\<lambda>repo envID w. (None, w)),
       repo_Update = (\<lambda>repo env explanation w. (None, w)),
       repo_UpdateFile = (\<lambda>repo env targetFile explanation w. (None, w)),
       env_FileWrite = (\<lambda>env explanation targetFile contents w. (None, w)),
       env_FileEdit = (\<lambda>env explanation targetFile search replace whichMatch w. (None, w)),
       env_FileDelete = (\<lambda>env explanation targetFile w. (None, w)),
       env_Run = (\<lambda>env command shell useEntrypoint w. ((''ok'', None), w)),
       env_RunBackground = (\<lambda>env command shell ports useEntrypoint w. (([], None), w)),
       json_Marshal = (\<lambda>response. Inr (ID_resp response)),
       json_Marshal_endpoints = (\<lambda>endpoints. Inr ''{}''),
       tparse_ParseNow = (\<lambda>str w. (Inr (w - Hour), w)),
       time_Now = (\<lambda>w. (w, w)) \<rparr>"

definition single_tenant :: tool_context where
  "single_tenant = \<lparr> singleTenantValue = Some True, daggerClientValue = Some DaggerClient \<rparr>"

definition multi_tenant :: tool_context where
  "multi_tenant = \<lparr> singleTenantValue = Some False, daggerClientValue = Some DaggerClient \<rparr>"

text \<open>A process whose session holds the environment \<open>env-1\<close> of the repository \<open>/repo\<close>.\<close>

definition in_session :: "int process" where
  "in_session =
     \<lparr> currentEnvironmentID = ''env-1'', currentEnvironmentSource = ''/repo'', calls = [],
       printed = [], world = 1000000000000000000 \<rparr>"

text \<open>The calls that reconcile an environment into its branch.\<close>

fun is_reconcile :: "call \<Rightarrow> bool" where
  "is_reconcile (Call_Update repo envID explanation) = True"
| "is_reconcile (Call_UpdateFile repo envID targetFile explanation) = True"
| "is_reconcile _ = False"

fun is_Delete :: "call \<Rightarrow> bool" where
  "is_Delete (Call_Delete repo envID) = True"
| "is_Delete _ = False"

fun is_query :: "call \<Rightarrow> bool" where
  "is_query (Call_Open source) = True"
| "is_query (Call_List repo) = True"
| "is_query (Call_ParseNow str) = True"
| "is_query Call_Now = True"
| "is_query _ = False"

fun is_Create :: "call \<Rightarrow> bool" where
  "is_Create (Call_Create repo title explanation gitRef) = True"
| "is_Create _ = False"

section \<open>Session State: getters and setters\<close>

lemma session_run_append:
  "session_run (cs @ ds) s = session_run ds (session_run cs s)"
  by (induction cs arbitrary: s) simp_all

lemma last_stored_snoc:
  "last_stored f (cs @ [c]) = (case f c of Some v \<Rightarrow> Some v | None \<Rightarrow> last_stored f cs)"
  by (induction cs) (simp_all split: option.splits)

lemma stored_id_run:
  "currentEnvironmentID (session_run cs s) =
     (case last_stored stores_id cs of Some v \<Rightarrow> v | None \<Rightarrow> currentEnvironmentID s)"
proof (induction cs rule: rev_induct)
  case Nil
  show ?case by simp
next
  case (snoc c cs)
  then show ?case
    by (cases c)
       (simp_all add: session_run_append last_stored_snoc setCurrentEnvironmentID_def
          setCurrentEnvironmentSource_def setCurrentEnvironment_def)
qed

lemma stored_source_run:
  "currentEnvironmentSource (session_run cs s) =
     (case last_stored stores_source cs of Some v \<Rightarrow> v | None \<Rightarrow> currentEnvironmentSource s)"
proof (induction cs rule: rev_induct)
  case Nil
  show ?case by simp
next
  case (snoc c cs)
  then show ?case
    by (cases c)
       (simp_all add: session_run_append last_stored_snoc setCurrentEnvironmentID_def
          setCurrentEnvironmentSource_def setCurrentEnvironment_def)
qed

text \<open>
  C5. After any history of setter and getter calls, from the start of the process,
  \<open>getCurrentEnvironmentID\<close> (\<open>getCurrentEnvironmentSource\<close>) fails exactly when the
  stored ID (source) is empty, which is when no setter stored an ID (source) or the last
  one stored was empty; otherwise it returns the last value stored.
\<close>

theorem session_getters_last_stored:
  "getCurrentEnvironmentID (session_run cs (process_start w))
     = spec_getter (last_stored stores_id cs)
   \<and> getCurrentEnvironmentSource (session_run cs (process_start w))
     = spec_getter (last_stored stores_source cs)
   \<and> ((\<exists>e. getCurrentEnvironmentID (session_run cs s) = Inl e)
        = (currentEnvironmentID (session_run cs s) = []))
   \<and> ((\<exists>e. getCurrentEnvironmentSource (session_run cs s) = Inl e)
        = (currentEnvironmentSource (session_run cs s) = []))"
  by (simp add: getCurrentEnvironmentID_def getCurrentEnvironmentSource_def spec_getter_def
        stored_id_run stored_source_run process_start_def split: option.splits)

section \<open>The environment response\<close>

text \<open>
  C7. The response built from an EnvironmentInfo with id I, title T and config C has id
  I, title T, config C, remote_ref "container-use/" followed by I, and the checkout, log
  and diff commands "container-use checkout I", "container-use log I" and
  "container-use diff I".
\<close>

theorem environmentResponseFromEnvInfo_fields:
  "ID_resp (environmentResponseFromEnvInfo envInfo) = ID envInfo
   \<and> Title_resp (environmentResponseFromEnvInfo envInfo) = Title (State envInfo)
   \<and> Config_resp (environmentResponseFromEnvInfo envInfo) = Config (State envInfo)
   \<and> RemoteRef (environmentResponseFromEnvInfo envInfo) = ''container-use/'' @ ID envInfo
   \<and> CheckoutCommand (environmentResponseFromEnvInfo envInfo)
       = ''container-use checkout '' @ ID envInfo
   \<and> LogCommand (environmentResponseFromEnvInfo envInfo) = ''container-use log '' @ ID envInfo
   \<and> DiffCommand (environmentResponseFromEnvInfo envInfo) = ''container-use diff '' @ ID envInfo"
  by (simp add: environmentResponseFromEnvInfo_def)

section \<open>Title length for shell completion\<close>

lemma sint_minus_40:
  assumes "- (2 ^ 63) + 40 \<le> sint (w :: 64 word)"
  shows "sint (w - 40) = sint w - 40"
proof -
  have "sint w < 2 ^ 63"
    using sint_lt [of w] by simp
  with assms show ?thesis
    by (simp add: sint_word_ariths signed_take_bit_int_eq_self)
qed

text \<open>
  C9, as stated, fails where the subtraction wraps around: at the least 64-bit integer
  the code returns 100, and that integer minus 40, clamped to 10..100, is 10.
\<close>

theorem calculateMaxTitleLength_wraps:
  "sint (calculateMaxTitleLength (- (2 ^ 63)))
     \<noteq> max 10 (min 100 (sint (- (2 ^ 63) :: 64 word) - 40))"
  by (simp add: calculateMaxTitleLength_def Let_def)

text \<open>
  C9, amended. For every 64-bit terminalWidth the result is at least 10 and at most 100;
  and for every terminalWidth of at least -2^63 + 40 (where terminalWidth - 40 does not
  wrap around) it is terminalWidth minus 40, clamped below at 10 and above at 100.
\<close>

theorem calculateMaxTitleLength_clamped:
  "10 \<le> sint (calculateMaxTitleLength w) \<and> sint (calculateMaxTitleLength w) \<le> 100
   \<and> (- (2 ^ 63) + 40 \<le> sint w \<longrightarrow>
        sint (calculateMaxTitleLength w) = max 10 (min 100 (sint w - 40)))"
  by (simp add: calculateMaxTitleLength_def Let_def sint_minus_40)

theorem calculateMaxTitleLength_clamped_witness:
  "- (2 ^ 63) + 40 \<le> sint (120 :: 64 word)
   \<and> sint (calculateMaxTitleLength 120) = 80
   \<and> max 10 (min 100 (sint (120 :: 64 word) - 40)) = (80 :: int)"
  using calculateMaxTitleLength_clamped [of 120] by (simp add: calculateMaxTitleLength_def Let_def)

section \<open>Resolution of the repository and the environment\<close>

lemma invoke_fields:
  assumes "invoke c f s = (r, s1)"
  shows "calls s1 = calls s @ [c]"
    and "currentEnvironmentID s1 = currentEnvironmentID s"
    and "currentEnvironmentSource s1 = currentEnvironmentSource s"
    and "printed s1 = printed s"
    and "f (world s) = (r, world s1)"
  using assms by (auto simp: invoke_def split: prod.splits)

lemma openRepository_session:
  assumes "openRepository B ctx request s = (r, s1)"
  shows "currentEnvironmentID s1 = currentEnvironmentID s"
    and "currentEnvironmentSource s1 = currentEnvironmentSource s"
    and "printed s1 = printed s"
  using assms
  by (auto simp: openRepository_def Let_def split: if_splits sum.splits prod.splits
        dest: invoke_fields)

lemma openRepository_multi_missing:
  assumes "\<not> singleTenantMode ctx" "request ''environment_source'' = None"
  shows "openRepository B ctx request s
           = (Inl (RequiredArgumentNotFound ''environment_source''), s)"
  using assms by (simp add: openRepository_def RequireString_def)

lemma openRepository_single_empty:
  assumes "singleTenantMode ctx" "GetString request ''environment_source'' [] = []"
    "currentEnvironmentSource s = []"
  shows "openRepository B ctx request s = (Inl NoCurrentEnvironment, s)"
  using assms by (simp add: openRepository_def getCurrentEnvironmentSource_def)

lemma openRepository_filled:
  assumes "singleTenantMode ctx" "GetString request ''environment_source'' [] = []"
    "currentEnvironmentSource s \<noteq> []"
  shows "openRepository B ctx request s
       = openRepository B ctx (request(''environment_source'' \<mapsto> AString (currentEnvironmentSource s))) s"
  using assms by (simp add: openRepository_def Let_def GetString_def getCurrentEnvironmentSource_def)

lemma openRepository_error_kind:
  assumes "singleTenantMode ctx"
  shows "(fst (openRepository B ctx request s) = Inl NoCurrentEnvironment)
          = (GetString request ''environment_source'' [] = [] \<and> currentEnvironmentSource s = [])"
  using assms
  by (auto simp: openRepository_def Let_def getCurrentEnvironmentSource_def
        split: sum.splits prod.splits)

lemma openEnvironment_multi_missing_source:
  assumes "\<not> singleTenantMode ctx" "request ''environment_source'' = None"
  shows "openEnvironment B ctx request s
           = (Inl (RequiredArgumentNotFound ''environment_source''), s)"
  using assms by (simp add: openEnvironment_def openRepository_multi_missing)

lemma openEnvironment_multi_missing_id:
  assumes "\<not> singleTenantMode ctx" "request ''environment_id'' = None"
  shows "\<exists>err. fst (openEnvironment B ctx request s) = Inl err"
  using assms
  by (auto simp: openEnvironment_def RequireString_def split: sum.splits prod.splits)

lemma openEnvironment_multi_missing_id_after_open:
  assumes "\<not> singleTenantMode ctx" "request ''environment_id'' = None"
    "openRepository B ctx request s = (Inr repo, s1)"
  shows "openEnvironment B ctx request s
           = (Inl (RequiredArgumentNotFound ''environment_id''), s1)"
  using assms
  by (auto simp: openEnvironment_def RequireString_def split: sum.splits prod.splits)

lemma openEnvironment_single_empty_source:
  assumes "singleTenantMode ctx" "GetString request ''environment_source'' [] = []"
    "currentEnvironmentSource s = []"
  shows "openEnvironment B ctx request s = (Inl NoCurrentEnvironment, s)"
  using assms by (simp add: openEnvironment_def openRepository_single_empty)

lemma openEnvironment_single_empty_id:
  assumes "singleTenantMode ctx" "GetString request ''environment_id'' [] = []"
    "currentEnvironmentID s = []" "openRepository B ctx request s = (Inr repo, s1)"
  shows "openEnvironment B ctx request s = (Inl NoCurrentEnvironment, s1)"
  using assms openRepository_session(1) [OF assms(4)]
  by (simp add: openEnvironment_def getCurrentEnvironmentID_def)

lemma openRepository_other_key:
  "key' \<noteq> ''environment_source'' \<Longrightarrow>
     openRepository B ctx (request(key' \<mapsto> v)) s = openRepository B ctx request s"
  by (simp add: openRepository_def GetString_def RequireString_def)

lemma openEnvironment_filled_source:
  assumes "singleTenantMode ctx" "GetString request ''environment_source'' [] = []"
    "currentEnvironmentSource s \<noteq> []"
  shows "openEnvironment B ctx request s
       = openEnvironment B ctx
           (request(''environment_source'' \<mapsto> AString (currentEnvironmentSource s))) s"
proof (cases "openRepository B ctx request s")
  case (Pair r s1)
  then have "openRepository B ctx
      (request(''environment_source'' \<mapsto> AString (currentEnvironmentSource s))) s = (r, s1)"
    using openRepository_filled [OF assms, of B] by simp
  then show ?thesis
    using Pair
    by (cases r) (simp_all add: openEnvironment_def GetString_def RequireString_def)
qed

lemma openEnvironment_filled_id:
  assumes "singleTenantMode ctx" "GetString request ''environment_id'' [] = []"
    "currentEnvironmentID s \<noteq> []"
  shows "openEnvironment B ctx request s
       = openEnvironment B ctx
           (request(''environment_id'' \<mapsto> AString (currentEnvironmentID s))) s"
proof (cases "openRepository B ctx request s")
  case (Pair r s1)
  have id: "currentEnvironmentID s1 = currentEnvironmentID s"
    using openRepository_session(1) [OF Pair] .
  show ?thesis
    using assms Pair id
    by (cases r)
       (simp_all add: openEnvironment_def openRepository_other_key GetString_def
          getCurrentEnvironmentID_def)
qed

lemma openEnvironment_error_kind:
  assumes "singleTenantMode ctx"
  shows "(fst (openEnvironment B ctx request s) = Inl NoCurrentEnvironment)
          = ((GetString request ''environment_source'' [] = [] \<and> currentEnvironmentSource s = [])
             \<or> ((\<exists>repo. fst (openRepository B ctx request s) = Inr repo)
                 \<and> GetString request ''environment_id'' [] = [] \<and> currentEnvironmentID s = []))"
proof (cases "openRepository B ctx request s")
  case (Pair r s1)
  have id: "currentEnvironmentID s1 = currentEnvironmentID s"
    using openRepository_session(1) [OF Pair] .
  have k: "(r = Inl NoCurrentEnvironment)
          = (GetString request ''environment_source'' [] = [] \<and> currentEnvironmentSource s = [])"
    using openRepository_error_kind [OF assms, of B request s] Pair by simp
  show ?thesis
  proof (cases r)
    case (Inl err)
    then show ?thesis using Pair k by (simp add: openEnvironment_def)
  next
    case (Inr repo)
    then show ?thesis
      using Pair k id assms
      by (auto simp: openEnvironment_def Let_def getCurrentEnvironmentID_def
            split: option.splits prod.splits sum.splits)
  qed
qed


lemma openRepository_single_errors:
  assumes "singleTenantMode ctx" "openRepository B ctx request s = (Inl e, s1)"
  shows "e = NoCurrentEnvironment \<or> (\<exists>pre x. e = Wrapped pre x)"
  using assms
  by (auto simp: openRepository_def Let_def getCurrentEnvironmentSource_def
        split: sum.splits prod.splits if_splits)

lemma resolve_id_single_errors:
  assumes "(let envID = GetString request ''environment_id'' []
            in if envID = [] then getCurrentEnvironmentID s1 else Inr envID) = Inl e"
  shows "e = NoCurrentEnvironment"
  using assms by (auto simp: Let_def getCurrentEnvironmentID_def split: if_splits)

lemma openEnvironment_single_errors:
  assumes "singleTenantMode ctx" "openEnvironment B ctx request s = (Inl e, s2)"
  shows "e = NoCurrentEnvironment \<or> e = DaggerClientNotFound \<or> (\<exists>pre x. e = Wrapped pre x)"
proof (cases "openRepository B ctx request s")
  case (Pair r s1)
  show ?thesis
  proof (cases r)
    case (Inl e')
    then have "e' = e"
      using Pair assms(2) by (simp add: openEnvironment_def)
    then show ?thesis
      using openRepository_single_errors [OF assms(1)] Pair Inl by blast
  next
    case (Inr repo)
    show ?thesis
    proof (cases "let envID = GetString request ''environment_id'' []
                  in if envID = [] then getCurrentEnvironmentID s1 else Inr envID")
      case (Inl e')
      then have "e' = e"
        using Pair Inr assms by (simp add: openEnvironment_def)
      then show ?thesis
        using resolve_id_single_errors [OF Inl] by simp
    next
      case r2: (Inr envID)
      show ?thesis
      proof (cases "daggerClientValue ctx")
        case None
        then show ?thesis
          using Pair Inr r2 assms by (simp add: openEnvironment_def)
      next
        case (Some dag)
        then show ?thesis
          using Pair Inr r2 assms
          by (cases "invoke (Call_Get repo envID) (repo_Get B repo envID) s1")
             (auto simp: openEnvironment_def split: sum.splits)
      qed
    qed
  qed
qed

lemma openEnvironment_single_no_missing_argument:
  assumes "singleTenantMode ctx"
  shows "fst (openEnvironment B ctx request s) \<noteq> Inl (RequiredArgumentNotFound key)"
    and "fst (openEnvironment B ctx request s) \<noteq> Inl (ArgumentNotAString key)"
  using openEnvironment_single_errors [OF assms, of B request s]
  by (cases "openEnvironment B ctx request s"; auto)+

lemma handlers_fail_with_openEnvironment:
  assumes "openEnvironment B ctx request s = (Inl err, s1)"
  shows "createEnvironmentOpenTool_Handler B ctx request s = (Inl err, s1)"
    and "createEnvironmentFileWriteTool_Handler B ctx request s = (Inl err, s1)"
    and "createEnvironmentFileDeleteTool_Handler B ctx request s = (Inl err, s1)"
    and "createEnvironmentRunCmdTool_Handler B ctx request s = (Some (Inl err), s1)"
    and "createEnvironmentFileEditTool_Handler B ctx request s
           = (Inr (NewToolResultErrorFromErr ''unable to open the environment'' err), s1)"
  using assms
  by (simp_all add: createEnvironmentOpenTool_Handler_def
        createEnvironmentFileWriteTool_Handler_def createEnvironmentFileDeleteTool_Handler_def
        createEnvironmentRunCmdTool_Handler_def createEnvironmentFileEditTool_Handler_def)

text \<open>
  C4. Every environment-scoped tool resolves its repository and environment through
  \<open>openEnvironment\<close>, and fails when it fails. In multi-tenant mode a missing
  \<open>environment_source\<close> or \<open>environment_id\<close> makes it fail. In single-tenant mode a
  missing (empty) \<open>environment_source\<close> or \<open>environment_id\<close> is filled from Session
  State: the call goes as the call that carries the Session State value, and the
  resolution fails, with \<open>NoCurrentEnvironment\<close>, exactly when the Session State value
  that is needed is empty too; a missing argument is never the error.
\<close>

theorem environment_arguments_resolved:
  "(\<not> singleTenantMode ctx \<and> request ''environment_source'' = None \<longrightarrow>
      openEnvironment B ctx request s
        = (Inl (RequiredArgumentNotFound ''environment_source''), s))
   \<and> (\<not> singleTenantMode ctx \<and> request ''environment_id'' = None \<longrightarrow>
        (\<exists>err. fst (openEnvironment B ctx request s) = Inl err))
   \<and> (singleTenantMode ctx \<and> GetString request ''environment_source'' [] = []
        \<and> currentEnvironmentSource s \<noteq> [] \<longrightarrow>
        openEnvironment B ctx request s
          = openEnvironment B ctx
              (request(''environment_source'' \<mapsto> AString (currentEnvironmentSource s))) s)
   \<and> (singleTenantMode ctx \<and> GetString request ''environment_id'' [] = []
        \<and> currentEnvironmentID s \<noteq> [] \<longrightarrow>
        openEnvironment B ctx request s
          = openEnvironment B ctx
              (request(''environment_id'' \<mapsto> AString (currentEnvironmentID s))) s)
   \<and> (singleTenantMode ctx \<longrightarrow>
        (fst (openEnvironment B ctx request s) = Inl NoCurrentEnvironment)
          = ((GetString request ''environment_source'' [] = [] \<and> currentEnvironmentSource s = [])
             \<or> ((\<exists>repo. fst (openRepository B ctx request s) = Inr repo)
                 \<and> GetString request ''environment_id'' [] = [] \<and> currentEnvironmentID s = []))
        \<and> fst (openEnvironment B ctx request s) \<noteq> Inl (RequiredArgumentNotFound key)
        \<and> fst (openEnvironment B ctx request s) \<noteq> Inl (ArgumentNotAString key))
   \<and> (openEnvironment B ctx request s = (Inl err, s1) \<longrightarrow>
        createEnvironmentFileWriteTool_Handler B ctx request s = (Inl err, s1)
        \<and> createEnvironmentFileDeleteTool_Handler B ctx request s = (Inl err, s1)
        \<and> createEnvironmentRunCmdTool_Handler B ctx request s = (Some (Inl err), s1)
        \<and> createEnvironmentFileEditTool_Handler B ctx request s
             = (Inr (NewToolResultErrorFromErr ''unable to open the environment'' err), s1))"
  using openEnvironment_multi_missing_source [of ctx request B s]
    openEnvironment_multi_missing_id [of ctx request B s]
    openEnvironment_filled_source [of ctx request s B]
    openEnvironment_filled_id [of ctx request s B]
    openEnvironment_error_kind [of ctx B request s]
    openEnvironment_single_no_missing_argument [of ctx B request s key]
    handlers_fail_with_openEnvironment [of B ctx request s err s1]
  by blast

lemmas run_defs =
  openEnvironment_def openRepository_def invoke_def stub_def single_tenant_def multi_tenant_def
  in_session_def GetString_def RequireString_def GetBool_def singleTenantMode_def
  getCurrentEnvironmentSource_def getCurrentEnvironmentID_def

theorem environment_arguments_resolved_witness:
  "singleTenantMode single_tenant
   \<and> GetString Map.empty ''environment_source'' [] = []
   \<and> GetString Map.empty ''environment_id'' [] = []
   \<and> currentEnvironmentSource in_session = ''/repo''
   \<and> currentEnvironmentID in_session = ''env-1''
   \<and> openEnvironment stub single_tenant Map.empty in_session
        = openEnvironment stub single_tenant [''environment_source'' \<mapsto> AString ''/repo'']
            in_session
   \<and> openEnvironment stub single_tenant Map.empty in_session
        = openEnvironment stub single_tenant [''environment_id'' \<mapsto> AString ''env-1'']
            in_session
   \<and> fst (openEnvironment stub single_tenant Map.empty in_session)
        = Inr (Repository ''/repo'', stub_env ''env-1'')
   \<and> \<not> singleTenantMode multi_tenant
   \<and> openEnvironment stub multi_tenant Map.empty in_session
        = (Inl (RequiredArgumentNotFound ''environment_source''), in_session)
   \<and> createEnvironmentFileWriteTool_Handler stub multi_tenant Map.empty in_session
        = (Inl (RequiredArgumentNotFound ''environment_source''), in_session)"
  using environment_arguments_resolved
          [of single_tenant Map.empty stub in_session "''k''" NoCurrentEnvironment in_session]
    environment_arguments_resolved
          [of multi_tenant Map.empty stub in_session "''k''"
             "RequiredArgumentNotFound ''environment_source''" in_session]
  by (simp add: run_defs)

section \<open>The wrapper of every registered tool\<close>

text \<open>
  C8. Whatever the handler and the request, the handler that \<open>wrapTool\<close> makes never
  returns an error: when the inner handler returns an error, it returns an error tool
  result with that error's message; otherwise it returns what the inner handler
  returned, unchanged. \<open>RunStdioServer\<close> registers it under \<open>wrapToolWithClient\<close>, which
  returns what it returns.
\<close>

theorem wrapTool_never_errors:
  "snd (fst (wrapTool handler ctx request s)) = None
   \<and> snd (wrapTool handler ctx request s) = snd (handler ctx request s)
   \<and> (\<forall>err. snd (fst (handler ctx request s)) = Some err \<longrightarrow>
         fst (fst (wrapTool handler ctx request s)) = Some (NewToolResultError (Error err))
         \<and> Text (NewToolResultError (Error err)) = Error err
         \<and> IsError (NewToolResultError (Error err)))
   \<and> (snd (fst (handler ctx request s)) = None \<longrightarrow>
         wrapTool handler ctx request s = handler ctx request s)
   \<and> snd (fst (wrapToolWithClient (wrapTool handler) dag singleTenant ctx request s)) = None"
  by (auto simp: wrapTool_def wrapToolWithClient_def NewToolResultError_def
        split: prod.splits option.splits)

theorem wrapTool_never_errors_witness:
  "snd (fst (go_handler (createEnvironmentFileWriteTool_Handler stub) multi_tenant Map.empty
               in_session))
     = Some (RequiredArgumentNotFound ''environment_source'')
   \<and> wrapTool (go_handler (createEnvironmentFileWriteTool_Handler stub)) multi_tenant Map.empty
        in_session
     = ((Some \<lparr> Text = ''required argument '' @ quoted ''environment_source'' @ '' not found'',
                IsError = True \<rparr>, None), in_session)"
  using wrapTool_never_errors
          [of "go_handler (createEnvironmentFileWriteTool_Handler stub)" multi_tenant Map.empty
             in_session]
  by (simp add: run_defs go_handler_def go_return_def createEnvironmentFileWriteTool_Handler_def
        wrapTool_def NewToolResultError_def)

section \<open>The prune command with --dry-run\<close>

lemma print_line_fields:
  "calls (print_line l s) = calls s"
  "world (print_line l s) = world s"
  "printed (print_line l s) = printed s @ [l]"
  "currentEnvironmentID (print_line l s) = currentEnvironmentID s"
  "currentEnvironmentSource (print_line l s) = currentEnvironmentSource s"
  by (simp_all add: print_line_def)

lemma print_lines_fields:
  "calls (print_lines ls s) = calls s"
  "world (print_lines ls s) = world s"
  "printed (print_lines ls s) = printed s @ ls"
  by (induction ls arbitrary: s) (simp_all add: print_line_fields)

lemma prune_duration_calls:
  "\<exists>cs. calls (snd (prune_duration B before s)) = calls s @ cs \<and> list_all is_query cs"
  by (auto simp: prune_duration_def invoke_def split: prod.splits sum.splits)

lemma prune_duration_printed:
  "prune_duration B before s = (r, s3) \<Longrightarrow> printed s3 = printed s"
  by (auto simp: prune_duration_def invoke_def split: prod.splits sum.splits if_splits)

lemma prune_dry_run_calls:
  "\<exists>cs. calls (snd (pruneCmd_RunE B before True s)) = calls s @ cs \<and> list_all is_query cs"
proof (cases "invoke (Call_Open ''.'') (repository_Open B ''.'') s")
  case (Pair r1 s1)
  then have c1: "calls s1 = calls s @ [Call_Open ''.'']"
    by (rule invoke_fields(1))
  show ?thesis
  proof (cases r1)
    case (Inl err)
    then show ?thesis using Pair c1 by (simp add: pruneCmd_RunE_def)
  next
    case (Inr repo)
    obtain rd s3 where d: "prune_duration B before s1 = (rd, s3)"
      by fastforce
    obtain cs where c3: "calls s3 = calls s1 @ cs" "list_all is_query cs"
      using prune_duration_calls [of B before s1] d by auto
    show ?thesis
    proof (cases rd)
      case (Inl err)
      then show ?thesis using Pair Inr d c1 c3 by (simp add: pruneCmd_RunE_def)
    next
      case dur: (Inr duration)
      obtain rl s4 where l: "invoke (Call_List repo) (repo_List B repo) s3 = (rl, s4)"
        by fastforce
      then have c4: "calls s4 = calls s3 @ [Call_List repo]"
        by (rule invoke_fields(1))
      obtain now s5 where n: "invoke Call_Now (time_Now B) s4 = (now, s5)"
        by fastforce
      then have c5: "calls s5 = calls s4 @ [Call_Now]"
        by (rule invoke_fields(1))
      show ?thesis
        using Pair Inr d dur l n c1 c3 c4 c5
        by (cases rl)
           (simp_all add: pruneCmd_RunE_def Let_def print_line_fields print_lines_fields)
    qed
  qed
qed

lemma is_query_not_Delete: "list_all is_query cs \<Longrightarrow> \<not> list_ex is_Delete cs"
proof (induction cs)
  case Nil
  show ?case by simp
next
  case (Cons c cs)
  then show ?case by (cases c) simp_all
qed

lemma prune_dry_run_error:
  assumes "pruneCmd_RunE B before True s = (Some err, s')"
  shows "printed s' = printed s"
  using assms
  by (auto simp: pruneCmd_RunE_def Let_def print_line_fields print_lines_fields
        split: prod.splits sum.splits if_splits
        dest!: invoke_fields(4) prune_duration_printed)

lemma prune_dry_run_report:
  assumes "pruneCmd_RunE B before True s = (None, s')"
  shows "\<exists>repo s1 duration s3 envs s4.
           invoke (Call_Open ''.'') (repository_Open B ''.'') s = (Inr repo, s1)
           \<and> prune_duration B before s1 = (Inr duration, s3)
           \<and> invoke (Call_List repo) (repo_List B repo) s3 = (Inr envs, s4)
           \<and> (if envs = [] then s' = print_line NoEnvironmentsFound s4
               else \<exists>now s5. invoke Call_Now (time_Now B) s4 = (now, s5)
                 \<and> (let ids = map ID (filter (\<lambda>env. UpdatedAt (State env)
                                                  < time_Add now (negate_Duration duration)) envs)
                    in s' = (if ids = [] then print_line (NoEnvironmentsOlder duration) s5
                             else print_lines
                                    (WouldPrune (length ids) duration # map WouldPruneItem ids)
                                    s5)))"
  using assms
  by (auto simp: pruneCmd_RunE_def Let_def envsToPrune_of_def
        split: prod.splits sum.splits if_splits)


text \<open>
  C10. With \<open>--dry-run\<close> the prune command never calls \<open>Delete\<close>: the calls it makes
  are \<open>Open\<close>, \<open>List\<close> and readings of the clock. When it fails it has printed nothing;
  when it returns, it has printed that there are no environments, or none older than the
  duration, or the count and the IDs of the listed environments whose \<open>UpdatedAt\<close> is
  before the cutoff, in the order of the list, and it has done nothing else.
\<close>

theorem prune_dry_run_deletes_nothing:
  "(\<exists>cs. calls (snd (pruneCmd_RunE B before True s)) = calls s @ cs
          \<and> list_all is_query cs \<and> \<not> list_ex is_Delete cs)
   \<and> (\<forall>err s'. pruneCmd_RunE B before True s = (Some err, s') \<longrightarrow> printed s' = printed s)
   \<and> (\<forall>s'. pruneCmd_RunE B before True s = (None, s') \<longrightarrow>
        (\<exists>repo s1 duration s3 envs s4.
           invoke (Call_Open ''.'') (repository_Open B ''.'') s = (Inr repo, s1)
           \<and> prune_duration B before s1 = (Inr duration, s3)
           \<and> invoke (Call_List repo) (repo_List B repo) s3 = (Inr envs, s4)
           \<and> (if envs = [] then s' = print_line NoEnvironmentsFound s4
               else \<exists>now s5. invoke Call_Now (time_Now B) s4 = (now, s5)
                 \<and> (let ids = map ID (filter (\<lambda>env. UpdatedAt (State env)
                                                  < time_Add now (negate_Duration duration)) envs)
                    in s' = (if ids = [] then print_line (NoEnvironmentsOlder duration) s5
                             else print_lines
                                    (WouldPrune (length ids) duration # map WouldPruneItem ids)
                                    s5)))))"
proof -
  obtain cs where "calls (snd (pruneCmd_RunE B before True s)) = calls s @ cs"
    "list_all is_query cs"
    using prune_dry_run_calls [of B before s] by blast
  then have "\<exists>cs. calls (snd (pruneCmd_RunE B before True s)) = calls s @ cs
          \<and> list_all is_query cs \<and> \<not> list_ex is_Delete cs"
    using is_query_not_Delete by blast
  then show ?thesis
    using prune_dry_run_error [of B before s] prune_dry_run_report [of B before s]
    by blast
qed

theorem prune_dry_run_deletes_nothing_witness:
  "pruneCmd_RunE stub [] True in_session
     = (None, in_session \<lparr> calls := [Call_Open ''.'', Call_List (Repository ''.''), Call_Now],
                          printed := [WouldPrune 1 (7 * 24 * Hour), WouldPruneItem ''old-env''] \<rparr>)
   \<and> (\<exists>cs. calls (snd (pruneCmd_RunE stub [] True in_session)) = calls in_session @ cs
          \<and> list_all is_query cs \<and> \<not> list_ex is_Delete cs)"
  using prune_dry_run_deletes_nothing [of stub "[]" in_session]
  by (simp add: pruneCmd_RunE_def prune_duration_def invoke_def stub_def in_session_def
        stub_info_def envsToPrune_of_def time_Add_def negate_Duration_def minDuration_def
        Hour_def print_line_def Let_def)

section \<open>environment\_create\<close>

lemma openRepository_calls:
  assumes "openRepository B ctx request s = (r, s1)"
  shows "\<exists>cs. calls s1 = calls s @ cs \<and> \<not> list_ex is_Create cs"
  using assms
  by (auto simp: openRepository_def Let_def invoke_def
        split: if_splits sum.splits prod.splits)

lemma setCurrentEnvironment_fields:
  "currentEnvironmentID (setCurrentEnvironment envID envSource s) = envID"
  "currentEnvironmentSource (setCurrentEnvironment envID envSource s) = envSource"
  "calls (setCurrentEnvironment envID envSource s) = calls s"
  "world (setCurrentEnvironment envID envSource s) = world s"
  "printed (setCurrentEnvironment envID envSource s) = printed s"
  by (simp_all add: setCurrentEnvironment_def)

lemma create_blocked:
  assumes "singleTenantMode ctx" "\<not> GetBool request ''allow_replace'' False"
    "currentEnvironmentID s \<noteq> []"
    "openRepository B ctx request s = (Inr repo, s1)"
    "RequireString request ''title'' = Inr title"
  shows "createEnvironmentCreateTool_Handler B ctx request s
           = (Inl (EnvironmentAlreadyExists (currentEnvironmentID s)), s1)"
  using assms openRepository_session(1) [OF assms(4)]
  by (simp add: createEnvironmentCreateTool_Handler_def getCurrentEnvironmentID_def)

lemma create_blocked_fails:
  assumes "singleTenantMode ctx" "\<not> GetBool request ''allow_replace'' False"
    "currentEnvironmentID s \<noteq> []"
  shows "\<exists>err s' cs. createEnvironmentCreateTool_Handler B ctx request s = (Inl err, s')
           \<and> currentEnvironmentID s' = currentEnvironmentID s
           \<and> currentEnvironmentSource s' = currentEnvironmentSource s
           \<and> calls s' = calls s @ cs \<and> \<not> list_ex is_Create cs"
proof (cases "openRepository B ctx request s")
  case (Pair r s1)
  note sess = openRepository_session(1,2) [OF Pair] openRepository_calls [OF Pair]
  show ?thesis
  proof (cases r)
    case (Inl err)
    then show ?thesis
      using Pair sess by (simp add: createEnvironmentCreateTool_Handler_def)
  next
    case (Inr repo)
    show ?thesis
    proof (cases "RequireString request ''title''")
      case (Inl err)
      then show ?thesis
        using Pair Inr sess by (simp add: createEnvironmentCreateTool_Handler_def)
    next
      case r2: (Inr title)
      show ?thesis
        using create_blocked [OF assms, of B repo s1 title] Pair Inr r2 sess by simp
    qed
  qed
qed

lemma message_contains_id:
  "sublist currentEnvID (Error (EnvironmentAlreadyExists currentEnvID))"
  unfolding Error.simps by (rule sublist_appendI)

lemma create_proceeds:
  assumes "\<not> singleTenantMode ctx \<or> GetBool request ''allow_replace'' False
             \<or> currentEnvironmentID s = []"
    "openRepository B ctx request s = (Inr repo, s1)"
    "RequireString request ''title'' = Inr title"
    "daggerClientValue ctx = Some dag"
  shows "\<exists>cs. calls (snd (createEnvironmentCreateTool_Handler B ctx request s))
           = calls s1 @ Call_Create repo title (GetString request ''explanation'' [])
                          (GetString request ''from_git_ref'' ''HEAD'') # cs"
proof -
  let ?c = "Call_Create repo title (GetString request ''explanation'' [])
              (GetString request ''from_git_ref'' ''HEAD'')"
  let ?f = "repo_Create B repo title (GetString request ''explanation'' [])
              (GetString request ''from_git_ref'' ''HEAD'')"
  have guard: "(if singleTenantMode ctx \<and> \<not> GetBool request ''allow_replace'' False
            then (case getCurrentEnvironmentID s1 of
                    Inr currentEnvID \<Rightarrow> Some (EnvironmentAlreadyExists currentEnvID)
                  | Inl err \<Rightarrow> None)
            else None) = None"
    using assms(1) openRepository_session(1) [OF assms(2)]
    by (auto simp: getCurrentEnvironmentID_def)
  obtain r s2 where c: "invoke ?c ?f s1 = (r, s2)"
    by fastforce
  then have c2: "calls s2 = calls s1 @ [?c]"
    by (rule invoke_fields(1))
  show ?thesis
  proof (cases r)
    case (Inl err)
    then show ?thesis
      using assms(2-4) guard c c2
      by (simp add: createEnvironmentCreateTool_Handler_def Let_def)
  next
    case (Inr env)
    then show ?thesis
      using assms(2-4) guard c c2
      by (auto simp: createEnvironmentCreateTool_Handler_def Let_def invoke_def
            setCurrentEnvironment_def split: sum.splits prod.splits)
  qed
qed

lemma create_success:
  assumes "createEnvironmentCreateTool_Handler B ctx request s = (Inr res, s')"
  shows "\<exists>repo s1 title env s2 out dirty status.
           openRepository B ctx request s = (Inr repo, s1)
           \<and> RequireString request ''title'' = Inr title
           \<and> invoke (Call_Create repo title (GetString request ''explanation'' [])
                       (GetString request ''from_git_ref'' ''HEAD''))
                 (repo_Create B repo title (GetString request ''explanation'' [])
                    (GetString request ''from_git_ref'' ''HEAD'')) s1 = (Inr env, s2)
           \<and> marshalEnvironment B env = Inr out
           \<and> invoke (Call_IsDirty repo) (repo_IsDirty B repo)
                 (if singleTenantMode ctx
                  then setCurrentEnvironment (env_ID env)
                         (RequireString_ignoring_error request ''environment_source'') s2
                  else s2) = (Inr (dirty, status), s')
           \<and> res = NewToolResultText
                     (if dirty
                      then dirty_warning out (GetString request ''environment_source'' []) status
                      else out)"
  using assms
  by (auto simp: createEnvironmentCreateTool_Handler_def Let_def
        split: sum.splits prod.splits option.splits if_splits)


lemma GetBool_absent_or_false:
  "request key = None \<or> request key = Some (ABool False) \<Longrightarrow> \<not> GetBool request key False"
  by (auto simp: GetBool_def)

lemma create_success_session:
  assumes "singleTenantMode ctx"
    "createEnvironmentCreateTool_Handler B ctx request s = (Inr res, s')"
  shows "\<exists>repo s1 title env s2.
           openRepository B ctx request s = (Inr repo, s1)
           \<and> RequireString request ''title'' = Inr title
           \<and> invoke (Call_Create repo title (GetString request ''explanation'' [])
                       (GetString request ''from_git_ref'' ''HEAD''))
                 (repo_Create B repo title (GetString request ''explanation'' [])
                    (GetString request ''from_git_ref'' ''HEAD'')) s1 = (Inr env, s2)
           \<and> currentEnvironmentID s' = env_ID env
           \<and> (\<forall>src. request ''environment_source'' = Some (AString src) \<longrightarrow>
                  currentEnvironmentSource s' = src)"
proof -
  obtain repo s1 title env s2 out dirty status where
    o: "openRepository B ctx request s = (Inr repo, s1)"
    and t: "RequireString request ''title'' = Inr title"
    and c: "invoke (Call_Create repo title (GetString request ''explanation'' [])
                       (GetString request ''from_git_ref'' ''HEAD''))
                 (repo_Create B repo title (GetString request ''explanation'' [])
                    (GetString request ''from_git_ref'' ''HEAD'')) s1 = (Inr env, s2)"
    and d: "invoke (Call_IsDirty repo) (repo_IsDirty B repo)
                 (if singleTenantMode ctx
                  then setCurrentEnvironment (env_ID env)
                         (RequireString_ignoring_error request ''environment_source'') s2
                  else s2) = (Inr (dirty, status), s')"
    using create_success [OF assms(2)] by blast
  have "currentEnvironmentID s' = env_ID env"
    and "currentEnvironmentSource s'
           = RequireString_ignoring_error request ''environment_source''"
    using invoke_fields(2,3) [OF d] assms(1) by (simp_all add: setCurrentEnvironment_fields)
  then show ?thesis
    using o t c by (auto simp: RequireString_ignoring_error_def RequireString_def)
qed

text \<open>
  C1, as stated, fails for a call that carries no title: the handler fails, and no
  environment is created, but the error is the missing argument, and its message does
  not contain the ID of the current environment.
\<close>

theorem create_without_title_counterexample:
  "singleTenantMode single_tenant
   \<and> currentEnvironmentID in_session = ''env-1''
   \<and> Map.empty ''allow_replace'' = (None :: arg option)
   \<and> createEnvironmentCreateTool_Handler stub single_tenant Map.empty in_session
        = (Inl (RequiredArgumentNotFound ''title''), in_session \<lparr> calls := [Call_Open ''/repo''] \<rparr>)
   \<and> \<not> sublist ''env-1'' (Error (RequiredArgumentNotFound ''title''))"
proof -
  have "\<not> sublist ''env-1'' (Error (RequiredArgumentNotFound ''title''))"
    by code_simp
  moreover have "createEnvironmentCreateTool_Handler stub single_tenant Map.empty in_session
        = (Inl (RequiredArgumentNotFound ''title''), in_session \<lparr> calls := [Call_Open ''/repo''] \<rparr>)"
    by (simp add: createEnvironmentCreateTool_Handler_def run_defs)
  ultimately show ?thesis
    by (simp add: single_tenant_def singleTenantMode_def in_session_def)
qed

text \<open>
  C1, amended. In single-tenant mode, when a current environment ID is set and
  \<open>allow_replace\<close> is absent or false (or reads as false), the handler fails, creates no
  environment and leaves Session State as it is; when moreover the repository opens and
  the call carries a title, the error is the one whose message contains the existing ID.
  When \<open>allow_replace\<close> is true or no current environment is set, and the repository
  opens, the call carries a title and the context a client, \<open>Create\<close> is called; and on
  success the current ID is the new environment's ID, and the current source is the
  \<open>environment_source\<close> that the call carries.
\<close>

theorem create_guarded_by_allow_replace:
  "(singleTenantMode ctx \<and> currentEnvironmentID s \<noteq> []
      \<and> \<not> GetBool request ''allow_replace'' False \<longrightarrow>
      (\<exists>err s2 cs. createEnvironmentCreateTool_Handler B ctx request s = (Inl err, s2)
           \<and> currentEnvironmentID s2 = currentEnvironmentID s
           \<and> currentEnvironmentSource s2 = currentEnvironmentSource s
           \<and> calls s2 = calls s @ cs \<and> \<not> list_ex is_Create cs)
      \<and> (openRepository B ctx request s = (Inr repo, s1)
           \<and> RequireString request ''title'' = Inr title \<longrightarrow>
           createEnvironmentCreateTool_Handler B ctx request s
             = (Inl (EnvironmentAlreadyExists (currentEnvironmentID s)), s1)
           \<and> sublist (currentEnvironmentID s)
                (Error (EnvironmentAlreadyExists (currentEnvironmentID s)))))
   \<and> (request ''allow_replace'' = None \<or> request ''allow_replace'' = Some (ABool False) \<longrightarrow>
        \<not> GetBool request ''allow_replace'' False)
   \<and> (singleTenantMode ctx
        \<and> (GetBool request ''allow_replace'' False \<or> currentEnvironmentID s = [])
        \<and> openRepository B ctx request s = (Inr repo, s1)
        \<and> RequireString request ''title'' = Inr title
        \<and> daggerClientValue ctx = Some dag \<longrightarrow>
        (\<exists>cs. calls (snd (createEnvironmentCreateTool_Handler B ctx request s))
           = calls s1 @ Call_Create repo title (GetString request ''explanation'' [])
                          (GetString request ''from_git_ref'' ''HEAD'') # cs))
   \<and> (singleTenantMode ctx
        \<and> createEnvironmentCreateTool_Handler B ctx request s = (Inr res, s') \<longrightarrow>
        (\<exists>repo s1 title env s2.
           openRepository B ctx request s = (Inr repo, s1)
           \<and> RequireString request ''title'' = Inr title
           \<and> invoke (Call_Create repo title (GetString request ''explanation'' [])
                       (GetString request ''from_git_ref'' ''HEAD''))
                 (repo_Create B repo title (GetString request ''explanation'' [])
                    (GetString request ''from_git_ref'' ''HEAD'')) s1 = (Inr env, s2)
           \<and> currentEnvironmentID s' = env_ID env
           \<and> (\<forall>src. request ''environment_source'' = Some (AString src) \<longrightarrow>
                  currentEnvironmentSource s' = src)))"
  using create_blocked_fails [of ctx request s B]
    create_blocked [of ctx request s B repo s1 title]
    message_contains_id [of "currentEnvironmentID s"]
    GetBool_absent_or_false [of request "''allow_replace''"]
    create_proceeds [of ctx request s B repo s1 title dag]
    create_success_session [of ctx B request s res s']
  by blast


lemmas create_run_defs =
  createEnvironmentCreateTool_Handler_def marshalEnvironment_def environmentResponseFromEnv_def
  environmentResponseFromEnvInfo_def stub_env_def env_ID_def setCurrentEnvironment_def
  RequireString_ignoring_error_def NewToolResultText_def Let_def

theorem create_guarded_by_allow_replace_witness:
  "singleTenantMode single_tenant
   \<and> currentEnvironmentID in_session = ''env-1''
   \<and> \<not> GetBool [''title'' \<mapsto> AString ''t'', ''environment_source'' \<mapsto> AString ''/other'']
          ''allow_replace'' False
   \<and> createEnvironmentCreateTool_Handler stub single_tenant
        [''title'' \<mapsto> AString ''t'', ''environment_source'' \<mapsto> AString ''/other''] in_session
       = (Inl (EnvironmentAlreadyExists ''env-1''),
          in_session \<lparr> calls := [Call_Open ''/other''] \<rparr>)
   \<and> GetBool [''title'' \<mapsto> AString ''t'', ''environment_source'' \<mapsto> AString ''/other'',
               ''allow_replace'' \<mapsto> ABool True] ''allow_replace'' False
   \<and> createEnvironmentCreateTool_Handler stub single_tenant
        [''title'' \<mapsto> AString ''t'', ''environment_source'' \<mapsto> AString ''/other'',
         ''allow_replace'' \<mapsto> ABool True] in_session
       = (Inr \<lparr> Text = ''new-env'', IsError = False \<rparr>,
          in_session \<lparr> currentEnvironmentID := ''new-env'',
                       currentEnvironmentSource := ''/other'',
                       calls := [Call_Open ''/other'',
                                 Call_Create (Repository ''/other'') ''t'' [] ''HEAD'',
                                 Call_IsDirty (Repository ''/other'')] \<rparr>)"
  using create_guarded_by_allow_replace
          [of single_tenant in_session
             "[''title'' \<mapsto> AString ''t'', ''environment_source'' \<mapsto> AString ''/other'']"
             stub "Repository ''/other''" "in_session \<lparr> calls := [Call_Open ''/other''] \<rparr>"
             "''t''" DaggerClient "\<lparr> Text = ''new-env'', IsError = False \<rparr>" in_session]
    create_guarded_by_allow_replace
          [of single_tenant in_session
             "[''title'' \<mapsto> AString ''t'', ''environment_source'' \<mapsto> AString ''/other'',
               ''allow_replace'' \<mapsto> ABool True]"
             stub "Repository ''/other''" "in_session \<lparr> calls := [Call_Open ''/other''] \<rparr>"
             "''t''" DaggerClient "\<lparr> Text = ''new-env'', IsError = False \<rparr>"
             "in_session \<lparr> currentEnvironmentID := ''new-env'',
                       currentEnvironmentSource := ''/other'',
                       calls := [Call_Open ''/other'',
                                 Call_Create (Repository ''/other'') ''t'' [] ''HEAD'',
                                 Call_IsDirty (Repository ''/other'')] \<rparr>"]
  by (simp add: run_defs create_run_defs)

lemma dirty_warning_contains:
  "prefix out (dirty_warning out source status)"
  "sublist status (dirty_warning out source status)"
proof -
  show "prefix out (dirty_warning out source status)"
    by (simp add: dirty_warning_def)
  have "dirty_warning out source status
          = (out @ dirty_warning_head source) @ status @ dirty_warning_tail"
    by (simp add: dirty_warning_def)
  then show "sublist status (dirty_warning out source status)"
    by (simp only: sublist_appendI)
qed

text \<open>
  C6. A successful \<open>environment_create\<close> call has created an environment, marshaled its
  response and asked \<open>IsDirty\<close>. When \<open>IsDirty\<close> says that nothing is uncommitted, the
  text of the result is the marshaled response; when it says that something is, the text
  is the marshaled response, then a warning made of a head that names the source, the
  status that \<open>IsDirty\<close> gave, and a tail.
\<close>

theorem create_result_text:
  "createEnvironmentCreateTool_Handler B ctx request s = (Inr res, s') \<longrightarrow>
     (\<exists>repo s1 title env s2 out dirty status.
           openRepository B ctx request s = (Inr repo, s1)
           \<and> RequireString request ''title'' = Inr title
           \<and> invoke (Call_Create repo title (GetString request ''explanation'' [])
                       (GetString request ''from_git_ref'' ''HEAD''))
                 (repo_Create B repo title (GetString request ''explanation'' [])
                    (GetString request ''from_git_ref'' ''HEAD'')) s1 = (Inr env, s2)
           \<and> marshalEnvironment B env = Inr out
           \<and> json_Marshal B (environmentResponseFromEnv env) = Inr out
           \<and> invoke (Call_IsDirty repo) (repo_IsDirty B repo)
                 (if singleTenantMode ctx
                  then setCurrentEnvironment (env_ID env)
                         (RequireString_ignoring_error request ''environment_source'') s2
                  else s2) = (Inr (dirty, status), s')
           \<and> \<not> IsError res
           \<and> (\<not> dirty \<longrightarrow> Text res = out)
           \<and> (dirty \<longrightarrow>
                 Text res = out @ dirty_warning_head (GetString request ''environment_source'' [])
                              @ status @ dirty_warning_tail
                 \<and> prefix out (Text res) \<and> sublist status (Text res)))"
proof
  assume a: "createEnvironmentCreateTool_Handler B ctx request s = (Inr res, s')"
  obtain repo s1 title env s2 out dirty status where
    o: "openRepository B ctx request s = (Inr repo, s1)"
    and t: "RequireString request ''title'' = Inr title"
    and c: "invoke (Call_Create repo title (GetString request ''explanation'' [])
                       (GetString request ''from_git_ref'' ''HEAD''))
                 (repo_Create B repo title (GetString request ''explanation'' [])
                    (GetString request ''from_git_ref'' ''HEAD'')) s1 = (Inr env, s2)"
    and m: "marshalEnvironment B env = Inr out"
    and d: "invoke (Call_IsDirty repo) (repo_IsDirty B repo)
                 (if singleTenantMode ctx
                  then setCurrentEnvironment (env_ID env)
                         (RequireString_ignoring_error request ''environment_source'') s2
                  else s2) = (Inr (dirty, status), s')"
    and r: "res = NewToolResultText
                     (if dirty
                      then dirty_warning out (GetString request ''environment_source'' []) status
                      else out)"
    using create_success [OF a] by blast
  have j: "json_Marshal B (environmentResponseFromEnv env) = Inr out"
    using m by (simp add: marshalEnvironment_def split: sum.splits)
  have e: "\<not> IsError res"
    using r by (simp add: NewToolResultText_def)
  have clean: "\<not> dirty \<longrightarrow> Text res = out"
    using r by (simp add: NewToolResultText_def)
  have warn: "dirty \<longrightarrow>
                 Text res = out @ dirty_warning_head (GetString request ''environment_source'' [])
                              @ status @ dirty_warning_tail
                 \<and> prefix out (Text res) \<and> sublist status (Text res)"
  proof
    assume dirty
    then have "Text res = dirty_warning out (GetString request ''environment_source'' []) status"
      using r by (simp add: NewToolResultText_def)
    then show "Text res = out @ dirty_warning_head (GetString request ''environment_source'' [])
                              @ status @ dirty_warning_tail
                 \<and> prefix out (Text res) \<and> sublist status (Text res)"
      using dirty_warning_contains
              [where out = out and status = status
                 and source = "GetString request ''environment_source'' []"]
      by (simp add: dirty_warning_def)
  qed
  show "\<exists>repo s1 title env s2 out dirty status.
           openRepository B ctx request s = (Inr repo, s1)
           \<and> RequireString request ''title'' = Inr title
           \<and> invoke (Call_Create repo title (GetString request ''explanation'' [])
                       (GetString request ''from_git_ref'' ''HEAD''))
                 (repo_Create B repo title (GetString request ''explanation'' [])
                    (GetString request ''from_git_ref'' ''HEAD'')) s1 = (Inr env, s2)
           \<and> marshalEnvironment B env = Inr out
           \<and> json_Marshal B (environmentResponseFromEnv env) = Inr out
           \<and> invoke (Call_IsDirty repo) (repo_IsDirty B repo)
                 (if singleTenantMode ctx
                  then setCurrentEnvironment (env_ID env)
                         (RequireString_ignoring_error request ''environment_source'') s2
                  else s2) = (Inr (dirty, status), s')
           \<and> \<not> IsError res
           \<and> (\<not> dirty \<longrightarrow> Text res = out)
           \<and> (dirty \<longrightarrow>
                 Text res = out @ dirty_warning_head (GetString request ''environment_source'' [])
                              @ status @ dirty_warning_tail
                 \<and> prefix out (Text res) \<and> sublist status (Text res))"
    using o t c m j d e clean warn by blast
qed

theorem create_result_text_witness:
  "createEnvironmentCreateTool_Handler stub multi_tenant
        [''title'' \<mapsto> AString ''t'', ''environment_source'' \<mapsto> AString ''/other''] in_session
       = (Inr \<lparr> Text = ''new-env'', IsError = False \<rparr>,
          in_session \<lparr> calls := [Call_Open ''/other'',
                                 Call_Create (Repository ''/other'') ''t'' [] ''HEAD'',
                                 Call_IsDirty (Repository ''/other'')] \<rparr>)
   \<and> createEnvironmentCreateTool_Handler
        (stub \<lparr> repo_IsDirty := (\<lambda>repo w. (Inr (True, ''M file''), w)) \<rparr>) multi_tenant
        [''title'' \<mapsto> AString ''t'', ''environment_source'' \<mapsto> AString ''/other''] in_session
       = (Inr \<lparr> Text = ''new-env'' @ dirty_warning_head ''/other'' @ ''M file''
                         @ dirty_warning_tail,
                IsError = False \<rparr>,
          in_session \<lparr> calls := [Call_Open ''/other'',
                                 Call_Create (Repository ''/other'') ''t'' [] ''HEAD'',
                                 Call_IsDirty (Repository ''/other'')] \<rparr>)"
  using create_result_text
          [of stub multi_tenant
             "[''title'' \<mapsto> AString ''t'', ''environment_source'' \<mapsto> AString ''/other'']"
             in_session "\<lparr> Text = ''new-env'', IsError = False \<rparr>"
             "in_session \<lparr> calls := [Call_Open ''/other'',
                                 Call_Create (Repository ''/other'') ''t'' [] ''HEAD'',
                                 Call_IsDirty (Repository ''/other'')] \<rparr>"]
    create_result_text
          [of "stub \<lparr> repo_IsDirty := (\<lambda>repo w. (Inr (True, ''M file''), w)) \<rparr>" multi_tenant
             "[''title'' \<mapsto> AString ''t'', ''environment_source'' \<mapsto> AString ''/other'']"
             in_session
             "\<lparr> Text = ''new-env'' @ dirty_warning_head ''/other'' @ ''M file''
                         @ dirty_warning_tail, IsError = False \<rparr>"
             "in_session \<lparr> calls := [Call_Open ''/other'',
                                 Call_Create (Repository ''/other'') ''t'' [] ''HEAD'',
                                 Call_IsDirty (Repository ''/other'')] \<rparr>"]
  by (simp add: run_defs create_run_defs dirty_warning_def)

section \<open>environment\_open\<close>

lemma open_schema:
  "environmentIDArgument \<in> set createEnvironmentOpenTool_Definition"
  "environmentSourceArgument \<in> set createEnvironmentOpenTool_Definition"
  "arg_required environmentIDArgument" "arg_required environmentSourceArgument"
  by (simp_all add: createEnvironmentOpenTool_Definition_def newEnvironmentTool_def
        environmentIDArgument_def environmentSourceArgument_def)

lemma open_fails_multi:
  assumes "\<not> singleTenantMode ctx"
    "request ''environment_id'' = None \<or> request ''environment_source'' = None"
  shows "\<exists>err s2. createEnvironmentOpenTool_Handler B ctx request s = (Inl err, s2)"
proof -
  have "\<exists>err. fst (openEnvironment B ctx request s) = Inl err"
    using assms openEnvironment_multi_missing_id [of ctx request B s]
      openEnvironment_multi_missing_source [of ctx request B s] by auto
  then obtain err s1 where "openEnvironment B ctx request s = (Inl err, s1)"
    by (cases "openEnvironment B ctx request s") auto
  then show ?thesis
    by (simp add: createEnvironmentOpenTool_Handler_def)
qed

lemma open_fails_single_empty:
  assumes "singleTenantMode ctx"
    "(GetString request ''environment_id'' [] = [] \<and> currentEnvironmentID s = [])
     \<or> (GetString request ''environment_source'' [] = [] \<and> currentEnvironmentSource s = [])"
  shows "\<exists>err s2. createEnvironmentOpenTool_Handler B ctx request s = (Inl err, s2)"
proof (cases "openRepository B ctx request s")
  case (Pair r s1)
  show ?thesis
  proof (cases r)
    case (Inl err)
    then show ?thesis
      using Pair by (simp add: createEnvironmentOpenTool_Handler_def openEnvironment_def)
  next
    case (Inr repo)
    then have "\<not> (GetString request ''environment_source'' [] = []
                  \<and> currentEnvironmentSource s = [])"
      using Pair openRepository_single_empty [OF assms(1), of request s B] by auto
    then have "openEnvironment B ctx request s = (Inl NoCurrentEnvironment, s1)"
      using assms Pair Inr openEnvironment_single_empty_id [of ctx request s B repo s1] by blast
    then show ?thesis
      by (simp add: createEnvironmentOpenTool_Handler_def)
  qed
qed

lemma open_filled_id:
  assumes "singleTenantMode ctx" "GetString request ''environment_id'' [] = []"
    "currentEnvironmentID s \<noteq> []"
  shows "createEnvironmentOpenTool_Handler B ctx request s
       = createEnvironmentOpenTool_Handler B ctx
           (request(''environment_id'' \<mapsto> AString (currentEnvironmentID s))) s"
proof -
  have "RequireString_ignoring_error
          (request(''environment_id'' \<mapsto> AString (currentEnvironmentID s)))
          ''environment_source''
        = RequireString_ignoring_error request ''environment_source''"
    by (simp add: RequireString_ignoring_error_def RequireString_def)
  then show ?thesis
    using openEnvironment_filled_id [OF assms, of B]
    by (simp add: createEnvironmentOpenTool_Handler_def split: prod.splits sum.splits)
qed

lemma open_success:
  assumes "createEnvironmentOpenTool_Handler B ctx request s = (Inr res, s')"
  shows "\<exists>repo env s1.
           openEnvironment B ctx request s = (Inr (repo, env), s1)
           \<and> EnvironmentToCallResult B env = Inr res
           \<and> s' = (if singleTenantMode ctx
                    then setCurrentEnvironment (env_ID env)
                           (RequireString_ignoring_error request ''environment_source'') s1
                    else s1)"
  using assms
  by (auto simp: createEnvironmentOpenTool_Handler_def Let_def
        split: sum.splits prod.splits if_splits)

lemma open_success_session:
  assumes "singleTenantMode ctx"
    "createEnvironmentOpenTool_Handler B ctx request s = (Inr res, s')"
  shows "\<exists>repo env s1.
           openEnvironment B ctx request s = (Inr (repo, env), s1)
           \<and> currentEnvironmentID s' = env_ID env
           \<and> (\<forall>src. request ''environment_source'' = Some (AString src) \<longrightarrow>
                  currentEnvironmentSource s' = src)
           \<and> calls s' = calls s1 \<and> world s' = world s1"
  using open_success [OF assms(2)] assms(1)
  by (auto simp: setCurrentEnvironment_fields RequireString_ignoring_error_def
        RequireString_def)

text \<open>
  C3, as stated, fails in single-tenant mode: a call without \<open>environment_id\<close>, in a
  session that holds a current environment, opens that environment and succeeds.
\<close>

theorem open_without_id_counterexample:
  "singleTenantMode single_tenant
   \<and> [''environment_source'' \<mapsto> AString ''/repo''] ''environment_id'' = None
   \<and> createEnvironmentOpenTool_Handler stub single_tenant
        [''environment_source'' \<mapsto> AString ''/repo''] in_session
       = (Inr \<lparr> Text = ''env-1'', IsError = False \<rparr>,
          in_session \<lparr> calls := [Call_Open ''/repo'',
                                 Call_Get (Repository ''/repo'') ''env-1''] \<rparr>)"
  by (simp add: createEnvironmentOpenTool_Handler_def EnvironmentToCallResult_def run_defs
        create_run_defs)

text \<open>
  C3, amended. The definition of \<open>environment_open\<close> declares \<open>environment_id\<close> and
  \<open>environment_source\<close> as required, whatever the mode. The handler fails without either
  in multi-tenant mode. In single-tenant mode it takes a missing (empty) one from Session
  State, and fails when Session State has none either. On success in single-tenant mode
  the current ID is the ID of the opened environment, and the current source is the
  \<open>environment_source\<close> that the call carries.
\<close>

theorem open_requires_arguments:
  "environmentIDArgument \<in> set createEnvironmentOpenTool_Definition
   \<and> environmentSourceArgument \<in> set createEnvironmentOpenTool_Definition
   \<and> arg_required environmentIDArgument \<and> arg_required environmentSourceArgument
   \<and> (\<not> singleTenantMode ctx
        \<and> (request ''environment_id'' = None \<or> request ''environment_source'' = None) \<longrightarrow>
        (\<exists>err s2. createEnvironmentOpenTool_Handler B ctx request s = (Inl err, s2)))
   \<and> (singleTenantMode ctx
        \<and> ((GetString request ''environment_id'' [] = [] \<and> currentEnvironmentID s = [])
            \<or> (GetString request ''environment_source'' [] = []
                \<and> currentEnvironmentSource s = [])) \<longrightarrow>
        (\<exists>err s2. createEnvironmentOpenTool_Handler B ctx request s = (Inl err, s2)))
   \<and> (singleTenantMode ctx \<and> GetString request ''environment_id'' [] = []
        \<and> currentEnvironmentID s \<noteq> [] \<longrightarrow>
        createEnvironmentOpenTool_Handler B ctx request s
          = createEnvironmentOpenTool_Handler B ctx
              (request(''environment_id'' \<mapsto> AString (currentEnvironmentID s))) s)
   \<and> (singleTenantMode ctx \<and> GetString request ''environment_source'' [] = []
        \<and> currentEnvironmentSource s \<noteq> [] \<longrightarrow>
        openEnvironment B ctx request s
          = openEnvironment B ctx
              (request(''environment_source'' \<mapsto> AString (currentEnvironmentSource s))) s)
   \<and> (singleTenantMode ctx
        \<and> createEnvironmentOpenTool_Handler B ctx request s = (Inr res, s') \<longrightarrow>
        (\<exists>repo env s1.
           openEnvironment B ctx request s = (Inr (repo, env), s1)
           \<and> currentEnvironmentID s' = env_ID env
           \<and> (\<forall>src. request ''environment_source'' = Some (AString src) \<longrightarrow>
                  currentEnvironmentSource s' = src)
           \<and> calls s' = calls s1 \<and> world s' = world s1))"
  using open_schema open_fails_multi [of ctx request B s]
    open_fails_single_empty [of ctx request s B]
    open_filled_id [of ctx request s B]
    openEnvironment_filled_source [of ctx request s B]
    open_success_session [of ctx B request s res s']
  by blast

theorem open_requires_arguments_witness:
  "singleTenantMode single_tenant
   \<and> createEnvironmentOpenTool_Handler stub single_tenant
        [''environment_source'' \<mapsto> AString ''/other'', ''environment_id'' \<mapsto> AString ''env-2'']
        in_session
       = (Inr \<lparr> Text = ''env-2'', IsError = False \<rparr>,
          in_session \<lparr> currentEnvironmentID := ''env-2'',
                       currentEnvironmentSource := ''/other'',
                       calls := [Call_Open ''/other'',
                                 Call_Get (Repository ''/other'') ''env-2''] \<rparr>)
   \<and> GetString [''environment_source'' \<mapsto> AString ''/repo''] ''environment_id'' [] = []
   \<and> currentEnvironmentID in_session = ''env-1''
   \<and> createEnvironmentOpenTool_Handler stub single_tenant
        [''environment_source'' \<mapsto> AString ''/repo''] in_session
       = createEnvironmentOpenTool_Handler stub single_tenant
           [''environment_source'' \<mapsto> AString ''/repo'', ''environment_id'' \<mapsto> AString ''env-1'']
           in_session
   \<and> currentEnvironmentID (process_start (0 :: int)) = []
   \<and> createEnvironmentOpenTool_Handler stub single_tenant
        [''environment_source'' \<mapsto> AString ''/repo''] (process_start 0)
       = (Inl NoCurrentEnvironment, (process_start 0) \<lparr> calls := [Call_Open ''/repo''] \<rparr>)
   \<and> \<not> singleTenantMode multi_tenant
   \<and> [''environment_source'' \<mapsto> AString ''/other''] ''environment_id'' = None
   \<and> createEnvironmentOpenTool_Handler stub multi_tenant
        [''environment_source'' \<mapsto> AString ''/other''] in_session
       = (Inl (RequiredArgumentNotFound ''environment_id''),
          in_session \<lparr> calls := [Call_Open ''/other''] \<rparr>)"
  using open_requires_arguments
          [of single_tenant
             "[''environment_source'' \<mapsto> AString ''/other'',
               ''environment_id'' \<mapsto> AString ''env-2'']"
             stub in_session "\<lparr> Text = ''env-2'', IsError = False \<rparr>"
             "in_session \<lparr> currentEnvironmentID := ''env-2'',
                       currentEnvironmentSource := ''/other'',
                       calls := [Call_Open ''/other'',
                                 Call_Get (Repository ''/other'') ''env-2''] \<rparr>"]
    open_requires_arguments
          [of single_tenant "[''environment_source'' \<mapsto> AString ''/repo'']"
             stub in_session "\<lparr> Text = ''env-1'', IsError = False \<rparr>" in_session]
    open_requires_arguments
          [of single_tenant "[''environment_source'' \<mapsto> AString ''/repo'']"
             stub "process_start 0" "\<lparr> Text = ''env-1'', IsError = False \<rparr>" in_session]
    open_requires_arguments
          [of multi_tenant "[''environment_source'' \<mapsto> AString ''/other'']"
             stub in_session "\<lparr> Text = ''env-2'', IsError = False \<rparr>" in_session]
  by (simp add: createEnvironmentOpenTool_Handler_def EnvironmentToCallResult_def run_defs
        create_run_defs process_start_def)

section \<open>Reconciliation after an operation\<close>

lemma updateRepo_calls:
  assumes "updateRepo B request repo env s = (r, s1)"
  shows "calls s1 = calls s @ [Call_Update repo (env_ID env) (GetString request ''explanation'' [])]"
  using assms
  by (auto simp: updateRepo_def Let_def split: prod.splits option.splits
        dest: invoke_fields(1))

lemma run_foreground_calls:
  assumes "openEnvironment B ctx request s = (Inr (repo, env), s1)"
    "\<not> GetBool request ''background'' False"
  shows "calls (snd (createEnvironmentRunCmdTool_Handler B ctx request s))
       = calls s1 @ [Call_Run (env_ID env) (GetString request ''command'' [])
                       (GetString request ''shell'' ''sh'')
                       (GetBool request ''use_entrypoint'' False),
                     Call_Update repo (env_ID env) (GetString request ''explanation'' [])]"
proof -
  let ?c = "Call_Run (env_ID env) (GetString request ''command'' [])
              (GetString request ''shell'' ''sh'') (GetBool request ''use_entrypoint'' False)"
  obtain out runErr s2 where
    r: "invoke ?c (env_Run B env (GetString request ''command'' [])
              (GetString request ''shell'' ''sh'') (GetBool request ''use_entrypoint'' False)) s1
          = ((out, runErr), s2)"
    by (metis surj_pair)
  obtain u s3 where u: "updateRepo B request repo env s2 = (u, s3)"
    by fastforce
  have "calls s3 = calls s1 @ [?c, Call_Update repo (env_ID env)
                                     (GetString request ''explanation'' [])]"
    using invoke_fields(1) [OF r] updateRepo_calls [OF u] by simp
  then show ?thesis
    using assms r u
    by (simp add: createEnvironmentRunCmdTool_Handler_def Let_def split: option.splits)
qed

lemma run_background_calls:
  assumes "openEnvironment B ctx request s = (Inr (repo, env), s1)"
    "GetBool request ''background'' False"
    "ports_of_request request = Some ports"
  shows "calls (snd (createEnvironmentRunCmdTool_Handler B ctx request s))
       = calls s1 @ [Call_RunBackground (env_ID env) (GetString request ''command'' [])
                       (GetString request ''shell'' ''sh'') ports
                       (GetBool request ''use_entrypoint'' False),
                     Call_Update repo (env_ID env) (GetString request ''explanation'' [])]"
proof -
  let ?c = "Call_RunBackground (env_ID env) (GetString request ''command'' [])
              (GetString request ''shell'' ''sh'') ports
              (GetBool request ''use_entrypoint'' False)"
  obtain endpoints runErr s2 where
    r: "invoke ?c (env_RunBackground B env (GetString request ''command'' [])
              (GetString request ''shell'' ''sh'') ports
              (GetBool request ''use_entrypoint'' False)) s1
          = ((endpoints, runErr), s2)"
    by (metis surj_pair)
  obtain u s3 where u: "updateRepo B request repo env s2 = (u, s3)"
    by fastforce
  have "calls s3 = calls s1 @ [?c, Call_Update repo (env_ID env)
                                     (GetString request ''explanation'' [])]"
    using invoke_fields(1) [OF r] updateRepo_calls [OF u] by simp
  then show ?thesis
    using assms r u
    by (simp add: createEnvironmentRunCmdTool_Handler_def Let_def
          split: option.splits sum.splits)
qed

lemma run_failed_result:
  assumes "openEnvironment B ctx request s = (Inr (repo, env), s1)"
    "\<not> GetBool request ''background'' False"
    "invoke (Call_Run (env_ID env) (GetString request ''command'' [])
              (GetString request ''shell'' ''sh'') (GetBool request ''use_entrypoint'' False))
       (env_Run B env (GetString request ''command'' [])
              (GetString request ''shell'' ''sh'') (GetBool request ''use_entrypoint'' False)) s1
       = ((out, Some runErr), s2)"
    "updateRepo B request repo env s2 = (None, s3)"
  shows "createEnvironmentRunCmdTool_Handler B ctx request s
           = (Some (Inl (Wrapped ''failed to run command: '' runErr)), s3)"
  using assms by (simp add: createEnvironmentRunCmdTool_Handler_def Let_def)

lemma file_write_calls:
  assumes "openEnvironment B ctx request s = (Inr (repo, env), s1)"
    "RequireString request ''target_file'' = Inr targetFile"
    "RequireString request ''contents'' = Inr contents"
  shows "calls (snd (createEnvironmentFileWriteTool_Handler B ctx request s))
       = calls s1
         @ Call_FileWrite (env_ID env) (GetString request ''explanation'' []) targetFile contents
         # (if fst (env_FileWrite B env (GetString request ''explanation'' []) targetFile contents
                      (world s1)) = None
            then [Call_UpdateFile repo (env_ID env) targetFile
                    (GetString request ''explanation'' [])]
            else [])"
  using assms
  by (auto simp: createEnvironmentFileWriteTool_Handler_def Let_def invoke_def
        split: prod.splits option.splits)

lemma file_edit_calls:
  assumes "openEnvironment B ctx request s = (Inr (repo, env), s1)"
    "RequireString request ''target_file'' = Inr targetFile"
    "RequireString request ''search_text'' = Inr search"
    "RequireString request ''replace_text'' = Inr replace"
  shows "calls (snd (createEnvironmentFileEditTool_Handler B ctx request s))
       = calls s1
         @ Call_FileEdit (env_ID env) (GetString request ''explanation'' []) targetFile search
             replace (GetString request ''which_match'' [])
         # (if fst (env_FileEdit B env (GetString request ''explanation'' []) targetFile search
                      replace (GetString request ''which_match'' []) (world s1)) = None
            then [Call_UpdateFile repo (env_ID env) targetFile
                    (GetString request ''explanation'' [])]
            else [])"
  using assms
  by (auto simp: createEnvironmentFileEditTool_Handler_def Let_def invoke_def
        split: prod.splits option.splits)

lemma file_delete_calls:
  assumes "openEnvironment B ctx request s = (Inr (repo, env), s1)"
    "RequireString request ''target_file'' = Inr targetFile"
  shows "calls (snd (createEnvironmentFileDeleteTool_Handler B ctx request s))
       = calls s1
         @ Call_FileDelete (env_ID env) (GetString request ''explanation'' []) targetFile
         # (if fst (env_FileDelete B env (GetString request ''explanation'' []) targetFile
                      (world s1)) = None
            then [Call_Update repo (env_ID env) (GetString request ''explanation'' [])]
            else [])"
  using assms
  by (auto simp: createEnvironmentFileDeleteTool_Handler_def Let_def invoke_def
        split: prod.splits option.splits)


lemmas file_run_defs =
  createEnvironmentFileWriteTool_Handler_def createEnvironmentRunCmdTool_Handler_def
  updateRepo_def stub_env_def env_ID_def committed_text_def NewToolResultText_def Let_def

text \<open>
  C2, as stated, fails for \<open>environment_file_write\<close>: when \<open>FileWrite\<close> fails, the
  handler returns its error, and calls neither \<open>UpdateFile\<close> nor \<open>Update\<close>.
\<close>

theorem file_write_failure_counterexample:
  "createEnvironmentFileWriteTool_Handler
     (stub \<lparr> env_FileWrite := (\<lambda>env explanation targetFile contents w.
                                  (Some (External ''read-only file system''), w)) \<rparr>)
     multi_tenant
     [''environment_source'' \<mapsto> AString ''/repo'', ''environment_id'' \<mapsto> AString ''env-1'',
      ''target_file'' \<mapsto> AString ''a.txt'', ''contents'' \<mapsto> AString ''x'']
     in_session
   = (Inl (Wrapped ''failed to write file: '' (External ''read-only file system'')),
      in_session \<lparr> calls := [Call_Open ''/repo'', Call_Get (Repository ''/repo'') ''env-1'',
                             Call_FileWrite ''env-1'' [] ''a.txt'' ''x''] \<rparr>)
   \<and> \<not> list_ex is_reconcile
         [Call_Open ''/repo'', Call_Get (Repository ''/repo'') ''env-1'',
          Call_FileWrite ''env-1'' [] ''a.txt'' ''x'']"
  by (simp add: run_defs file_run_defs)

text \<open>
  C2, amended. \<open>environment_run_cmd\<close>, in the foreground and in the background, calls
  \<open>Update\<close> right after the command, whatever the command returned. The handlers of
  \<open>environment_file_write\<close>, \<open>environment_file_edit\<close> and \<open>environment_file_delete\<close>
  call \<open>UpdateFile\<close>, \<open>UpdateFile\<close> and \<open>Update\<close> after the operation when it
  succeeded, and make no further call when it failed.
\<close>

theorem reconcile_after_operation:
  "(openEnvironment B ctx request s = (Inr (repo, env), s1)
      \<and> \<not> GetBool request ''background'' False \<longrightarrow>
      calls (snd (createEnvironmentRunCmdTool_Handler B ctx request s))
        = calls s1 @ [Call_Run (env_ID env) (GetString request ''command'' [])
                        (GetString request ''shell'' ''sh'')
                        (GetBool request ''use_entrypoint'' False),
                      Call_Update repo (env_ID env) (GetString request ''explanation'' [])])
   \<and> (openEnvironment B ctx request s = (Inr (repo, env), s1)
        \<and> GetBool request ''background'' False \<and> ports_of_request request = Some ports \<longrightarrow>
        calls (snd (createEnvironmentRunCmdTool_Handler B ctx request s))
          = calls s1 @ [Call_RunBackground (env_ID env) (GetString request ''command'' [])
                          (GetString request ''shell'' ''sh'') ports
                          (GetBool request ''use_entrypoint'' False),
                        Call_Update repo (env_ID env) (GetString request ''explanation'' [])])
   \<and> (openEnvironment B ctx request s = (Inr (repo, env), s1)
        \<and> RequireString request ''target_file'' = Inr targetFile
        \<and> RequireString request ''contents'' = Inr contents \<longrightarrow>
        calls (snd (createEnvironmentFileWriteTool_Handler B ctx request s))
          = calls s1
            @ Call_FileWrite (env_ID env) (GetString request ''explanation'' []) targetFile
                contents
            # (if fst (env_FileWrite B env (GetString request ''explanation'' []) targetFile
                         contents (world s1)) = None
               then [Call_UpdateFile repo (env_ID env) targetFile
                       (GetString request ''explanation'' [])]
               else []))
   \<and> (openEnvironment B ctx request s = (Inr (repo, env), s1)
        \<and> RequireString request ''target_file'' = Inr targetFile
        \<and> RequireString request ''search_text'' = Inr search
        \<and> RequireString request ''replace_text'' = Inr replace \<longrightarrow>
        calls (snd (createEnvironmentFileEditTool_Handler B ctx request s))
          = calls s1
            @ Call_FileEdit (env_ID env) (GetString request ''explanation'' []) targetFile
                search replace (GetString request ''which_match'' [])
            # (if fst (env_FileEdit B env (GetString request ''explanation'' []) targetFile
                         search replace (GetString request ''which_match'' []) (world s1)) = None
               then [Call_UpdateFile repo (env_ID env) targetFile
                       (GetString request ''explanation'' [])]
               else []))
   \<and> (openEnvironment B ctx request s = (Inr (repo, env), s1)
        \<and> RequireString request ''target_file'' = Inr targetFile \<longrightarrow>
        calls (snd (createEnvironmentFileDeleteTool_Handler B ctx request s))
          = calls s1
            @ Call_FileDelete (env_ID env) (GetString request ''explanation'' []) targetFile
            # (if fst (env_FileDelete B env (GetString request ''explanation'' []) targetFile
                         (world s1)) = None
               then [Call_Update repo (env_ID env) (GetString request ''explanation'' [])]
               else []))"
  using run_foreground_calls [of B ctx request s repo env s1]
    run_background_calls [of B ctx request s repo env s1 ports]
    file_write_calls [of B ctx request s repo env s1 targetFile contents]
    file_edit_calls [of B ctx request s repo env s1 targetFile search replace]
    file_delete_calls [of B ctx request s repo env s1 targetFile]
  by blast

theorem reconcile_after_operation_witness:
  "createEnvironmentRunCmdTool_Handler
     (stub \<lparr> env_Run := (\<lambda>env command shell useEntrypoint w.
                            ((''partial'', Some (External ''exit code 1'')), w)) \<rparr>)
     multi_tenant
     [''environment_source'' \<mapsto> AString ''/repo'', ''environment_id'' \<mapsto> AString ''env-1'',
      ''command'' \<mapsto> AString ''make'']
     in_session
   = (Some (Inl (Wrapped ''failed to run command: '' (External ''exit code 1''))),
      in_session \<lparr> calls := [Call_Open ''/repo'', Call_Get (Repository ''/repo'') ''env-1'',
                             Call_Run ''env-1'' ''make'' ''sh'' False,
                             Call_Update (Repository ''/repo'') ''env-1'' []] \<rparr>)
   \<and> calls (snd (createEnvironmentRunCmdTool_Handler
        (stub \<lparr> env_RunBackground := (\<lambda>env command shell ports useEntrypoint w.
                            (([], Some (External ''no such image'')), w)) \<rparr>)
        multi_tenant
        [''environment_source'' \<mapsto> AString ''/repo'', ''environment_id'' \<mapsto> AString ''env-1'',
         ''command'' \<mapsto> AString ''serve'', ''background'' \<mapsto> ABool True,
         ''ports'' \<mapsto> AArray [ANumber 8080]]
        in_session))
     = [Call_Open ''/repo'', Call_Get (Repository ''/repo'') ''env-1'',
        Call_RunBackground ''env-1'' ''serve'' ''sh'' [8080] False,
        Call_Update (Repository ''/repo'') ''env-1'' []]
   \<and> calls (snd (createEnvironmentFileWriteTool_Handler stub multi_tenant
        [''environment_source'' \<mapsto> AString ''/repo'', ''environment_id'' \<mapsto> AString ''env-1'',
         ''target_file'' \<mapsto> AString ''a.txt'', ''contents'' \<mapsto> AString ''x'']
        in_session))
     = [Call_Open ''/repo'', Call_Get (Repository ''/repo'') ''env-1'',
        Call_FileWrite ''env-1'' [] ''a.txt'' ''x'',
        Call_UpdateFile (Repository ''/repo'') ''env-1'' ''a.txt'' []]
   \<and> calls (snd (createEnvironmentFileEditTool_Handler
        (stub \<lparr> env_FileEdit := (\<lambda>env explanation targetFile search replace whichMatch w.
                            (Some (External ''no match''), w)) \<rparr>)
        multi_tenant
        [''environment_source'' \<mapsto> AString ''/repo'', ''environment_id'' \<mapsto> AString ''env-1'',
         ''target_file'' \<mapsto> AString ''a.txt'', ''search_text'' \<mapsto> AString ''x'',
         ''replace_text'' \<mapsto> AString ''y'']
        in_session))
     = [Call_Open ''/repo'', Call_Get (Repository ''/repo'') ''env-1'',
        Call_FileEdit ''env-1'' [] ''a.txt'' ''x'' ''y'' []]
   \<and> calls (snd (createEnvironmentFileDeleteTool_Handler stub multi_tenant
        [''environment_source'' \<mapsto> AString ''/repo'', ''environment_id'' \<mapsto> AString ''env-1'',
         ''target_file'' \<mapsto> AString ''a.txt'']
        in_session))
     = [Call_Open ''/repo'', Call_Get (Repository ''/repo'') ''env-1'',
        Call_FileDelete ''env-1'' [] ''a.txt'',
        Call_Update (Repository ''/repo'') ''env-1'' []]"
  using reconcile_after_operation
          [where B = "stub \<lparr> env_Run := (\<lambda>env command shell useEntrypoint w.
                            ((''partial'', Some (External ''exit code 1'')), w)) \<rparr>"
             and ctx = multi_tenant
             and request = "[''environment_source'' \<mapsto> AString ''/repo'',
                             ''environment_id'' \<mapsto> AString ''env-1'',
                             ''command'' \<mapsto> AString ''make'']"
             and s = in_session and repo = "Repository ''/repo''" and env = "stub_env ''env-1''"
             and ?s1.0 = "in_session \<lparr> calls := [Call_Open ''/repo'',
                                            Call_Get (Repository ''/repo'') ''env-1''] \<rparr>"]
    reconcile_after_operation
          [where B = "stub \<lparr> env_RunBackground := (\<lambda>env command shell ports useEntrypoint w.
                            (([], Some (External ''no such image'')), w)) \<rparr>"
             and ctx = multi_tenant
             and request = "[''environment_source'' \<mapsto> AString ''/repo'',
                             ''environment_id'' \<mapsto> AString ''env-1'',
                             ''command'' \<mapsto> AString ''serve'', ''background'' \<mapsto> ABool True,
                             ''ports'' \<mapsto> AArray [ANumber 8080]]"
             and s = in_session and repo = "Repository ''/repo''" and env = "stub_env ''env-1''"
             and ?s1.0 = "in_session \<lparr> calls := [Call_Open ''/repo'',
                                            Call_Get (Repository ''/repo'') ''env-1''] \<rparr>"
             and ports = "[8080]"]
    reconcile_after_operation
          [where B = stub and ctx = multi_tenant
             and request = "[''environment_source'' \<mapsto> AString ''/repo'',
                             ''environment_id'' \<mapsto> AString ''env-1'',
                             ''target_file'' \<mapsto> AString ''a.txt'',
                             ''contents'' \<mapsto> AString ''x'']"
             and s = in_session and repo = "Repository ''/repo''" and env = "stub_env ''env-1''"
             and ?s1.0 = "in_session \<lparr> calls := [Call_Open ''/repo'',
                                            Call_Get (Repository ''/repo'') ''env-1''] \<rparr>"
             and targetFile = "''a.txt''" and contents = "''x''"]
    reconcile_after_operation
          [where B = "stub \<lparr> env_FileEdit :=
                            (\<lambda>env explanation targetFile search replace whichMatch w.
                               (Some (External ''no match''), w)) \<rparr>"
             and ctx = multi_tenant
             and request = "[''environment_source'' \<mapsto> AString ''/repo'',
                             ''environment_id'' \<mapsto> AString ''env-1'',
                             ''target_file'' \<mapsto> AString ''a.txt'',
                             ''search_text'' \<mapsto> AString ''x'',
                             ''replace_text'' \<mapsto> AString ''y'']"
             and s = in_session and repo = "Repository ''/repo''" and env = "stub_env ''env-1''"
             and ?s1.0 = "in_session \<lparr> calls := [Call_Open ''/repo'',
                                            Call_Get (Repository ''/repo'') ''env-1''] \<rparr>"
             and targetFile = "''a.txt''" and search = "''x''" and replace = "''y''"]
    reconcile_after_operation
          [where B = stub and ctx = multi_tenant
             and request = "[''environment_source'' \<mapsto> AString ''/repo'',
                             ''environment_id'' \<mapsto> AString ''env-1'',
                             ''target_file'' \<mapsto> AString ''a.txt'']"
             and s = in_session and repo = "Repository ''/repo''" and env = "stub_env ''env-1''"
             and ?s1.0 = "in_session \<lparr> calls := [Call_Open ''/repo'',
                                            Call_Get (Repository ''/repo'') ''env-1''] \<rparr>"
             and targetFile = "''a.txt''"]
  by (simp add: run_defs file_run_defs ports_of_request_def)

end
